theory Spec2Isabelle
  imports Main "HOL-Library.Word"
begin

unbundle bit_operations_syntax

section \<open>Exceptions\<close>

text \<open>
  The exceptions that can travel through \<^verbatim>\<open>scrape_g2crowd_urls\<close>. \<open>PlaywrightError\<close> is
  \<^verbatim>\<open>playwright.async_api.Error\<close> with its message, \<open>PlaywrightTimeoutError\<close> its subclass
  \<^verbatim>\<open>TimeoutError\<close>. The others are built-in exceptions of the interpreter:
  \<open>IndexError\<close> from a subscript out of range, \<open>ValueError\<close> from \<^verbatim>\<open>int()\<close> and
  \<^verbatim>\<open>float()\<close>, \<open>UnboundLocalError\<close> from reading a local variable that was never assigned.
\<close>

datatype exn =
    PlaywrightError string
  | PlaywrightTimeoutError string
  | ValueError
  | IndexError
  | UnboundLocalError

text \<open>
  \<^verbatim>\<open>except Error as e\<close> (line 150): the clause matches instances of Playwright's \<open>Error\<close>
  only. \<open>caught e\<close> is \<open>Some (str e)\<close> when the clause matches and \<open>None\<close> when the
  exception passes through it.
\<close>

fun caught :: "exn \<Rightarrow> string option" where
  "caught (PlaywrightError m) = Some m"
| "caught (PlaywrightTimeoutError m) = Some m"
| "caught ValueError = None"
| "caught IndexError = None"
| "caught UnboundLocalError = None"

section \<open>The string operations of the interpreter\<close>

text \<open>
  Page text is a \<open>string\<close>; a \<open>char\<close> stands for the code point of the same number
  (0 to 255).
\<close>

definition hexdigit :: "nat \<Rightarrow> char" where
  "hexdigit n = ''0123456789abcdef'' ! (n mod 16)"

text \<open>\<^verbatim>\<open>str.isprintable\<close> on one code point below 256.\<close>

definition printable :: "char \<Rightarrow> bool" where
  "printable c =
     (let n = (of_char c :: nat)
      in (32 \<le> n \<and> n < 127) \<or> (161 \<le> n \<and> n \<noteq> 173))"

text \<open>
  One character inside \<^verbatim>\<open>repr\<close> of a string whose quote character is \<open>q\<close>: the quote and
  the backslash get a backslash, tab, line feed and carriage return their letters, every
  other character that is not printable becomes \<^verbatim>\<open>\xhh\<close>.
\<close>

definition repr_char :: "char \<Rightarrow> char \<Rightarrow> string" where
  "repr_char q c =
     (if c = q \<or> c = CHR 0x5C then [CHR 0x5C, c]
      else if c = CHR 0x09 then [CHR 0x5C, CHR ''t'']
      else if c = CHR 0x0A then [CHR 0x5C, CHR ''n'']
      else if c = CHR 0x0D then [CHR 0x5C, CHR ''r'']
      else if printable c then [c]
      else [CHR 0x5C, CHR ''x'', hexdigit (of_char c div 16), hexdigit (of_char c mod 16)])"

text \<open>
  \<^verbatim>\<open>repr\<close> of a string: double quotes when the string has an apostrophe and no double
  quote, apostrophes otherwise.
\<close>

definition repr_quote :: "string \<Rightarrow> char" where
  "repr_quote s = (if CHR 0x27 \<in> set s \<and> CHR 0x22 \<notin> set s then CHR 0x22 else CHR 0x27)"

definition repr_str :: "string \<Rightarrow> string" where
  "repr_str s = repr_quote s # concat (map (repr_char (repr_quote s)) s) @ [repr_quote s]"

text \<open>\<^verbatim>\<open>sep.join(xs)\<close>.\<close>

fun join :: "string \<Rightarrow> string list \<Rightarrow> string" where
  "join sep [] = []"
| "join sep [x] = x"
| "join sep (x # y # ys) = x @ sep @ join sep (y # ys)"

text \<open>\<^verbatim>\<open>str(xs)\<close> for a list of strings: the \<^verbatim>\<open>repr\<close> of each element, in brackets.\<close>

definition str_list :: "string list \<Rightarrow> string" where
  "str_list xs = ''['' @ join '', '' (map repr_str xs) @ '']''"

text \<open>\<^verbatim>\<open>s.split(sep)\<close> for a separator of one character.\<close>

fun push :: "char \<Rightarrow> string list \<Rightarrow> string list" where
  "push c [] = [[c]]"
| "push c (t # ts) = (c # t) # ts"

fun split :: "char \<Rightarrow> string \<Rightarrow> string list" where
  "split sep [] = [[]]"
| "split sep (c # cs) = (if c = sep then [] # split sep cs else push c (split sep cs))"

text \<open>\<^verbatim>\<open>xs[i]\<close> for an index that is not negative: out of range raises.\<close>

definition getitem :: "'a list \<Rightarrow> nat \<Rightarrow> exn + 'a" where
  "getitem xs i = (if i < length xs then Inr (xs ! i) else Inl IndexError)"

text \<open>
  The characters \<^verbatim>\<open>int()\<close> and \<^verbatim>\<open>float()\<close> strip from both ends of their argument:
  tab to carriage return, the space, and the code points 0x85 and 0xA0.
\<close>

definition is_space :: "char \<Rightarrow> bool" where
  "is_space c =
     (let n = (of_char c :: nat)
      in (9 \<le> n \<and> n \<le> 13) \<or> n = 32 \<or> n = 133 \<or> n = 160)"

definition strip :: "string \<Rightarrow> string" where
  "strip s = rev (dropWhile is_space (rev (dropWhile is_space s)))"

definition is_digit :: "char \<Rightarrow> bool" where
  "is_digit c = (let n = (of_char c :: nat) in 48 \<le> n \<and> n \<le> 57)"

definition digit_value :: "char \<Rightarrow> nat" where
  "digit_value c = of_char c - 48"

text \<open>
  The digits of an integer literal as \<^verbatim>\<open>int()\<close> reads it: at least one digit, and single
  underscores between digits only. \<open>None\<close> when the text is not of that shape.
\<close>

fun digit_groups :: "string \<Rightarrow> string option" where
  "digit_groups [] = None"
| "digit_groups [c] = (if is_digit c then Some [c] else None)"
| "digit_groups (c # d # cs) =
     (if \<not> is_digit c then None
      else if d = CHR ''_'' then map_option ((#) c) (digit_groups cs)
      else map_option ((#) c) (digit_groups (d # cs)))"

definition decimal_value :: "string \<Rightarrow> nat" where
  "decimal_value ds = foldl (\<lambda>a c. 10 * a + digit_value c) 0 ds"

text \<open>The sign in front of a numeric literal, and the rest.\<close>

fun split_sign :: "string \<Rightarrow> bool \<times> string" where
  "split_sign [] = (False, [])"
| "split_sign (c # cs) =
     (if c = CHR ''-'' then (True, cs)
      else if c = CHR ''+'' then (False, cs)
      else (False, c # cs))"

text \<open>
  \<^verbatim>\<open>int(s)\<close> in base 10. \<open>max_digits\<close> is the interpreter's limit on the number of digits of
  the literal (\<^verbatim>\<open>sys.get_int_max_str_digits()\<close>; 0 means no limit, as in interpreters older
  than the limit).
\<close>

definition py_int :: "nat \<Rightarrow> string \<Rightarrow> exn + int" where
  "py_int max_digits s =
     (case split_sign (strip s) of
        (neg, body) \<Rightarrow>
          (case digit_groups body of
             None \<Rightarrow> Inl ValueError
           | Some ds \<Rightarrow>
               if 0 < max_digits \<and> max_digits < length ds then Inl ValueError
               else Inr (if neg then - int (decimal_value ds) else int (decimal_value ds))))"

section \<open>Floating-point values\<close>

text \<open>
  A Python \<open>float\<close> is an IEEE 754 binary64 value, kept here as its 64 bits.
\<close>

type_synonym double = "64 word"

definition is_nan :: "double \<Rightarrow> bool" where
  "is_nan d = (0x7FF0000000000000 < (d AND 0x7FFFFFFFFFFFFFFF))"

text \<open>\<^verbatim>\<open>a == b\<close> on floats: false when either is a NaN, and the two zeros are equal.\<close>

definition float_eq :: "double \<Rightarrow> double \<Rightarrow> bool" where
  "float_eq a b =
     (\<not> is_nan a \<and> \<not> is_nan b \<and> (a = b \<or> (a OR b) AND 0x7FFFFFFFFFFFFFFF = 0))"

definition lower :: "char \<Rightarrow> char" where
  "lower c =
     (let n = (of_char c :: nat)
      in if 65 \<le> n \<and> n \<le> 90 then ''abcdefghijklmnopqrstuvwxyz'' ! (n - 65) else c)"

text \<open>
  The special literals of \<^verbatim>\<open>float()\<close>, read before any digits are: an optional sign, then
  \<^verbatim>\<open>inf\<close>, \<^verbatim>\<open>infinity\<close> or \<^verbatim>\<open>nan\<close> in any case.
\<close>

definition parse_inf_or_nan :: "string \<Rightarrow> double option" where
  "parse_inf_or_nan s =
     (case split_sign s of
        (neg, body) \<Rightarrow>
          if map lower body = ''inf'' \<or> map lower body = ''infinity''
          then Some (if neg then 0xFFF0000000000000 else 0x7FF0000000000000)
          else if map lower body = ''nan''
          then Some (if neg then 0xFFF8000000000000 else 0x7FF8000000000000)
          else None)"

text \<open>
  \<^verbatim>\<open>float(s)\<close>. The conversion of a decimal literal to the nearest binary64 value is the
  interpreter's \<open>strtod\<close>, taken as a parameter: \<open>strtod t\<close> is \<open>None\<close> when \<open>t\<close> is not a
  decimal literal.
\<close>

definition py_float :: "(string \<Rightarrow> double option) \<Rightarrow> string \<Rightarrow> exn + double" where
  "py_float strtod s =
     (case parse_inf_or_nan (strip s) of
        Some d \<Rightarrow> Inr d
      | None \<Rightarrow> (case strtod (strip s) of Some d \<Rightarrow> Inr d | None \<Rightarrow> Inl ValueError))"

section \<open>The review count\<close>

text \<open>
  Lines 123 to 127:
  \<^verbatim>\<open>int(str(await page.locator(reviews_xpath).all_inner_texts()).split(" ")[1].split("'")[1])\<close>
  applied to the list of texts the locator returned.
\<close>

definition parse_reviews :: "nat \<Rightarrow> string list \<Rightarrow> exn + int" where
  "parse_reviews max_digits texts =
     (case getitem (split CHR '' '' (str_list texts)) 1 of
        Inl e \<Rightarrow> Inl e
      | Inr token \<Rightarrow>
          (case getitem (split CHR 0x27 token) 1 of
             Inl e \<Rightarrow> Inl e
           | Inr segment \<Rightarrow> py_int max_digits segment))"

section \<open>The record and the collection\<close>

text \<open>
  The dataclass \<^verbatim>\<open>GProduct\<close> (lines 14 to 20). \<open>None\<close> is the default of \<open>title\<close> and
  \<open>reviews\<close>, \<open>0.0\<close> (all bits zero) the default of the three averages.
\<close>

record GProduct =
  title :: "string option"
  reviews :: "int option"
  seo_ease_use_average :: double
  seo_quality_support_average :: double
  seo_ease_setup_average :: double

definition new_GProduct :: GProduct where
  "new_GProduct =
     \<lparr>title = None, reviews = None, seo_ease_use_average = 0,
      seo_quality_support_average = 0, seo_ease_setup_average = 0\<rparr>"

section \<open>The browser and the interpreter as parameters\<close>

text \<open>The keyword arguments of \<^verbatim>\<open>playwright.chromium.launch\<close>.\<close>

record launch_options =
  headless :: bool

text \<open>
  The browser automation library, over a browser state \<open>'b\<close> that every call may change.
  \<open>launch\<close> stands for \<^verbatim>\<open>chromium.launch\<close> followed by \<^verbatim>\<open>new_page\<close>; \<open>goto\<close> and
  \<open>wait_for_load_state\<close> return \<open>Some e\<close> when they raise \<open>e\<close>; \<open>inner_text x\<close> is
  \<^verbatim>\<open>page.locator(x).inner_text()\<close> and \<open>all_inner_texts x\<close> is
  \<^verbatim>\<open>page.locator(x).all_inner_texts()\<close>, with \<open>Inl e\<close> when they raise \<open>e\<close>.
\<close>

record 'b playwright =
  launch :: "launch_options \<Rightarrow> 'b"
  goto :: "string \<Rightarrow> 'b \<Rightarrow> exn option \<times> 'b"
  wait_for_load_state :: "'b \<Rightarrow> exn option \<times> 'b"
  inner_text :: "string \<Rightarrow> 'b \<Rightarrow> (exn + string) \<times> 'b"
  all_inner_texts :: "string \<Rightarrow> 'b \<Rightarrow> (exn + string list) \<times> 'b"

text \<open>
  What the program takes from the interpreter and from pandas without fixing it itself:
  \<^item> \<open>max_str_digits\<close>: the digit limit of \<^verbatim>\<open>int()\<close>, 0 for none;
  \<^item> \<open>strtod\<close>: decimal literal to binary64, \<open>None\<close> when the text is no such literal;
  \<^item> \<open>int_to_double\<close>: the conversion of an integer to binary64 that pandas applies when
    a column of integers also holds \<open>None\<close>;
  \<^item> \<open>float_str\<close>: the text of a binary64 value that is not a NaN in a CSV file;
  \<^item> \<open>json_float\<close>: the text of a binary64 value in a JSON file;
  \<^item> \<open>json_string\<close>: the text of a string in a JSON file, quotes included;
  \<^item> \<open>linesep\<close>: \<^verbatim>\<open>os.linesep\<close>, the line terminator of \<^verbatim>\<open>to_csv\<close>.
\<close>

record platform =
  max_str_digits :: nat
  strtod :: "string \<Rightarrow> double option"
  int_to_double :: "int \<Rightarrow> double"
  float_str :: "double \<Rightarrow> string"
  json_float :: "double \<Rightarrow> string"
  json_string :: "string \<Rightarrow> string"
  linesep :: string

section \<open>The state of a run\<close>

text \<open>
  \<open>heap\<close> holds the \<^verbatim>\<open>GProduct\<close> objects created so far, an object's reference being its
  position; \<open>product\<close> is the local variable of that name (\<open>None\<close> while it is unbound);
  \<open>product_list\<close> is \<^verbatim>\<open>products_list.product_list\<close>, a list of references; \<open>stdout\<close> the
  lines printed; \<open>files\<close> the files written, by name.
\<close>

record 'b frame =
  browser :: 'b
  heap :: "GProduct list"
  product :: "nat option"
  product_list :: "nat list"
  stdout :: "string list"
  files :: "string \<rightharpoonup> string"

text \<open>The records of the collection, in order.\<close>

definition collection :: "'b frame \<Rightarrow> GProduct list" where
  "collection s = map ((!) (heap s)) (product_list s)"

section \<open>The selectors\<close>

text \<open>Lines 111 to 116, character for character.\<close>

definition title_xpath :: string where
  \<open>title_xpath = ''//a[@class="c-midnight-100"]''\<close>

definition reviews_xpath :: string where
  \<open>reviews_xpath = ''//a[@class="link js-log-click" and @href="https://www.g2.com/products/conductor/reviews#reviews" and                 @href="https://www.g2.com/products/conductor/reviews#reviews"]''\<close>

definition seo_ease_use_average_xpath :: string where
  \<open>seo_ease_use_average_xpath = ''//div[@class="center-center fw-semibold text-medium" and @style="color: #ff492c"]''\<close>

definition seo_quality_support_average_xpath :: string where
  \<open>seo_quality_support_average_xpath = ''//div[@class="center-center fw-semibold text-medium" and @style="color: #5a39a2"]''\<close>

definition seo_ease_setup_average_xpath :: string where
  \<open>seo_ease_setup_average_xpath = ''//div[@class="center-center fw-semibold text-medium" and @style="color: #5a39a2"]''\<close>

section \<open>The statements of the loop body\<close>

text \<open>
  A statement takes the state and returns the exception it raised, if any, with the state
  it left behind.
\<close>

type_synonym 'b stmt = "'b frame \<Rightarrow> exn option \<times> 'b frame"

text \<open>Statements in sequence: the first exception ends the sequence.\<close>

fun seq :: "'b stmt list \<Rightarrow> 'b stmt" where
  "seq [] s = (None, s)"
| "seq (f # fs) s =
     (case f s of
        (Some e, s') \<Rightarrow> (Some e, s')
      | (None, s') \<Rightarrow> seq fs s')"

text \<open>\<^verbatim>\<open>await page.goto(url)\<close> and \<^verbatim>\<open>await page.wait_for_load_state()\<close>.\<close>

definition await_page :: "('b \<Rightarrow> exn option \<times> 'b) \<Rightarrow> 'b stmt" where
  "await_page call s = (case call (browser s) of (r, b) \<Rightarrow> (r, s\<lparr>browser := b\<rparr>))"

text \<open>\<^verbatim>\<open>product = GProduct()\<close>: a new object, and the variable bound to it.\<close>

definition bind_new_product :: "'b stmt" where
  "bind_new_product s =
     (None, s\<lparr>heap := heap s @ [new_GProduct], product := Some (length (heap s))\<rparr>)"

text \<open>
  \<^verbatim>\<open>product.field = value\<close>: the object the variable refers to is updated in place.
\<close>

definition set_field :: "(GProduct \<Rightarrow> GProduct) \<Rightarrow> 'b stmt" where
  "set_field upd s =
     (case product s of
        None \<Rightarrow> (Some UnboundLocalError, s)
      | Some r \<Rightarrow> (None, s\<lparr>heap := (heap s)[r := upd (heap s ! r)]\<rparr>))"

text \<open>Lines 120 to 122.\<close>

definition assign_title :: "'b playwright \<Rightarrow> 'b stmt" where
  "assign_title api s =
     (case inner_text api title_xpath (browser s) of
        (Inl e, b) \<Rightarrow> (Some e, s\<lparr>browser := b\<rparr>)
      | (Inr text, b) \<Rightarrow> set_field (\<lambda>p. p\<lparr>title := Some text\<rparr>) (s\<lparr>browser := b\<rparr>))"

text \<open>Lines 123 to 127.\<close>

definition assign_reviews :: "platform \<Rightarrow> 'b playwright \<Rightarrow> 'b stmt" where
  "assign_reviews pf api s =
     (case all_inner_texts api reviews_xpath (browser s) of
        (Inl e, b) \<Rightarrow> (Some e, s\<lparr>browser := b\<rparr>)
      | (Inr texts, b) \<Rightarrow>
          (case parse_reviews (max_str_digits pf) texts of
             Inl e \<Rightarrow> (Some e, s\<lparr>browser := b\<rparr>)
           | Inr n \<Rightarrow> set_field (\<lambda>p. p\<lparr>reviews := Some n\<rparr>) (s\<lparr>browser := b\<rparr>)))"

text \<open>
  Lines 128 to 148, three times the same statement: the text of one element, through
  \<^verbatim>\<open>float\<close>, into one field.
\<close>

definition assign_average ::
  "platform \<Rightarrow> 'b playwright \<Rightarrow> string \<Rightarrow> (double \<Rightarrow> GProduct \<Rightarrow> GProduct) \<Rightarrow> 'b stmt" where
  "assign_average pf api xpath setter s =
     (case inner_text api xpath (browser s) of
        (Inl e, b) \<Rightarrow> (Some e, s\<lparr>browser := b\<rparr>)
      | (Inr text, b) \<Rightarrow>
          (case py_float (strtod pf) text of
             Inl e \<Rightarrow> (Some e, s\<lparr>browser := b\<rparr>)
           | Inr d \<Rightarrow> set_field (setter d) (s\<lparr>browser := b\<rparr>)))"

text \<open>The body of the \<^verbatim>\<open>try\<close>, lines 102 to 148.\<close>

definition try_body :: "platform \<Rightarrow> 'b playwright \<Rightarrow> string \<Rightarrow> 'b stmt" where
  "try_body pf api url =
     seq [await_page (goto api url),
          await_page (wait_for_load_state api),
          bind_new_product,
          assign_title api,
          assign_reviews pf api,
          assign_average pf api seo_ease_use_average_xpath
            (\<lambda>d p. p\<lparr>seo_ease_use_average := d\<rparr>),
          assign_average pf api seo_quality_support_average_xpath
            (\<lambda>d p. p\<lparr>seo_quality_support_average := d\<rparr>),
          assign_average pf api seo_ease_setup_average_xpath
            (\<lambda>d p. p\<lparr>seo_ease_setup_average := d\<rparr>)]"

text \<open>
  Lines 102 and 103 on the browser alone: the navigation that precedes the creation of
  the record.
\<close>

definition navigate :: "'b playwright \<Rightarrow> string \<Rightarrow> 'b \<Rightarrow> exn option \<times> 'b" where
  "navigate api url b =
     (case goto api url b of
        (Some e, b') \<Rightarrow> (Some e, b')
      | (None, b') \<Rightarrow> wait_for_load_state api b')"

text \<open>Lines 118 to 148: the record is created and filled.\<close>

definition extraction :: "platform \<Rightarrow> 'b playwright \<Rightarrow> 'b stmt" where
  "extraction pf api =
     seq [bind_new_product,
          assign_title api,
          assign_reviews pf api,
          assign_average pf api seo_ease_use_average_xpath
            (\<lambda>d p. p\<lparr>seo_ease_use_average := d\<rparr>),
          assign_average pf api seo_quality_support_average_xpath
            (\<lambda>d p. p\<lparr>seo_quality_support_average := d\<rparr>),
          assign_average pf api seo_ease_setup_average_xpath
            (\<lambda>d p. p\<lparr>seo_ease_setup_average := d\<rparr>)]"

text \<open>Line 151: \<^verbatim>\<open>print(f"Error scraping {url}: {str(e)}")\<close>.\<close>

definition error_line :: "string \<Rightarrow> string \<Rightarrow> string" where
  "error_line url message = ''Error scraping '' @ url @ '': '' @ message"

text \<open>
  The \<^verbatim>\<open>try\<close> statement, lines 101 to 151: an exception the \<^verbatim>\<open>except\<close> clause matches is
  printed and the statement ends normally; any other exception leaves the statement.
\<close>

definition try_except :: "platform \<Rightarrow> 'b playwright \<Rightarrow> string \<Rightarrow> 'b stmt" where
  "try_except pf api url s =
     (case try_body pf api url s of
        (None, s') \<Rightarrow> (None, s')
      | (Some e, s') \<Rightarrow>
          (case caught e of
             Some message \<Rightarrow> (None, s'\<lparr>stdout := stdout s' @ [error_line url message]\<rparr>)
           | None \<Rightarrow> (Some e, s')))"

text \<open>
  Line 153, after the \<^verbatim>\<open>try\<close> statement: \<^verbatim>\<open>products_list.product_list.append(product)\<close>.
  Reading the variable while it is unbound raises.
\<close>

definition append_product :: "'b stmt" where
  "append_product s =
     (case product s of
        None \<Rightarrow> (Some UnboundLocalError, s)
      | Some r \<Rightarrow> (None, s\<lparr>product_list := product_list s @ [r]\<rparr>))"

text \<open>One iteration of the loop, and the loop of lines 100 to 153.\<close>

definition loop_body :: "platform \<Rightarrow> 'b playwright \<Rightarrow> string \<Rightarrow> 'b stmt" where
  "loop_body pf api url = seq [try_except pf api url, append_product]"

fun scrape_loop :: "platform \<Rightarrow> 'b playwright \<Rightarrow> string list \<Rightarrow> 'b stmt" where
  "scrape_loop pf api [] s = (None, s)"
| "scrape_loop pf api (url # urls) s =
     (case loop_body pf api url s of
        (Some e, s') \<Rightarrow> (Some e, s')
      | (None, s') \<Rightarrow> scrape_loop pf api urls s')"

text \<open>
  What the statements that fill the record leave alone: the variable, the collection,
  the output, the files and the number of objects.
\<close>

definition kept :: "'b frame \<Rightarrow> 'b frame \<Rightarrow> bool" where
  "kept s s' = (product s' = product s \<and> product_list s' = product_list s \<and> stdout s' = stdout s
     \<and> files s' = files s \<and> length (heap s') = length (heap s))"

section \<open>The tabular view\<close>

text \<open>The values a field of the dataclass can hold, and \<^verbatim>\<open>dataclasses.asdict\<close>.\<close>

datatype pyval = PyNone | PyStr string | PyInt int | PyFloat double

definition opt_val :: "('a \<Rightarrow> pyval) \<Rightarrow> 'a option \<Rightarrow> pyval" where
  "opt_val f v = (case v of None \<Rightarrow> PyNone | Some x \<Rightarrow> f x)"

definition asdict :: "GProduct \<Rightarrow> (string \<times> pyval) list" where
  "asdict p =
     [(''title'', opt_val PyStr (title p)),
      (''reviews'', opt_val PyInt (reviews p)),
      (''seo_ease_use_average'', PyFloat (seo_ease_use_average p)),
      (''seo_quality_support_average'', PyFloat (seo_quality_support_average p)),
      (''seo_ease_setup_average'', PyFloat (seo_ease_setup_average p))]"

text \<open>
  A pandas \<open>DataFrame\<close> with a range index: the column labels, the number of rows, and
  the cells of each column. A cell of a column of objects is \<open>NoneCell\<close>, \<open>StrCell\<close> or
  \<open>IntCell\<close>; a column of integers holds \<open>IntCell\<close>s; a column of floats holds
  \<open>FloatCell\<close>s, a NaN standing for a missing value.
\<close>

datatype cell = NoneCell | StrCell string | IntCell int | FloatCell double

record DataFrame =
  columns :: "string list"
  nrows :: nat
  data :: "cell list list"

definition nan :: double where
  "nan = 0x7FF8000000000000"

text \<open>
  The labels of the frame built from a list of dictionaries: every key, in the order of
  its first appearance.
\<close>

definition keys_in_order :: "(string \<times> pyval) list list \<Rightarrow> string list" where
  "keys_in_order ds =
     foldl (\<lambda>acc k. if k \<in> set acc then acc else acc @ [k]) [] (concat (map (map fst) ds))"

text \<open>A dictionary without the key gives a NaN.\<close>

definition lookup :: "(string \<times> pyval) list \<Rightarrow> string \<Rightarrow> pyval" where
  "lookup d k = (case map_of d k of Some v \<Rightarrow> v | None \<Rightarrow> PyFloat nan)"

fun is_str :: "pyval \<Rightarrow> bool" where
  "is_str (PyStr _) = True"
| "is_str _ = False"

fun is_int :: "pyval \<Rightarrow> bool" where
  "is_int (PyInt _) = True"
| "is_int _ = False"

fun object_cell :: "pyval \<Rightarrow> cell" where
  "object_cell PyNone = NoneCell"
| "object_cell (PyStr s) = StrCell s"
| "object_cell (PyInt n) = IntCell n"
| "object_cell (PyFloat d) = FloatCell d"

fun float_cell :: "(int \<Rightarrow> double) \<Rightarrow> pyval \<Rightarrow> cell" where
  "float_cell conv PyNone = FloatCell nan"
| "float_cell conv (PyStr s) = StrCell s"
| "float_cell conv (PyInt n) = FloatCell (conv n)"
| "float_cell conv (PyFloat d) = FloatCell d"

text \<open>
  The type pandas gives a column: a column with a string, or of \<open>None\<close> only, stays a
  column of objects; a column of integers only stays one of integers; any other column
  becomes a column of floats, \<open>None\<close> turning into NaN and an integer into a float.
  This is the rule for integers of the 64-bit range; a column that holds a larger integer
  beside a \<open>None\<close> is kept by pandas as a column of objects, which this rule does not
  cover.
\<close>

definition infer_column :: "(int \<Rightarrow> double) \<Rightarrow> pyval list \<Rightarrow> cell list" where
  "infer_column conv vs =
     (if list_ex is_str vs \<or> list_all (\<lambda>v. v = PyNone) vs then map object_cell vs
      else if list_all is_int vs then map object_cell vs
      else map (float_cell conv) vs)"

text \<open>
  \<^verbatim>\<open>pd.json_normalize(dicts, sep="_")\<close> for dictionaries that hold no dictionary: there is
  nothing to flatten, so the separator joins nothing and the frame is the one built from
  the list of dictionaries.
\<close>

definition json_normalize :: "platform \<Rightarrow> (string \<times> pyval) list list \<Rightarrow> DataFrame" where
  "json_normalize pf ds =
     \<lparr>columns = keys_in_order ds,
      nrows = length ds,
      data = map (\<lambda>k. infer_column (int_to_double pf) (map (\<lambda>d. lookup d k) ds))
               (keys_in_order ds)\<rparr>"

text \<open>\<^verbatim>\<open>GProductList.dataframe\<close>, lines 34 to 49, on the records of the collection.\<close>

definition dataframe :: "platform \<Rightarrow> GProduct list \<Rightarrow> DataFrame" where
  "dataframe pf ps = json_normalize pf (map asdict ps)"

text \<open>The rows of a frame, each with one cell per column.\<close>

definition rows :: "DataFrame \<Rightarrow> cell list list" where
  "rows df = map (\<lambda>i. map (\<lambda>col. col ! i) (data df)) [0..<nrows df]"

section \<open>Export to CSV\<close>

definition digit_char :: "nat \<Rightarrow> char" where
  "digit_char n = ''0123456789'' ! (n mod 10)"

fun str_nat :: "nat \<Rightarrow> string" where
  "str_nat n = (if n < 10 then [digit_char n] else str_nat (n div 10) @ [digit_char n])"

declare str_nat.simps [simp del]

text \<open>\<^verbatim>\<open>str(i)\<close> for an integer.\<close>

definition str_int :: "int \<Rightarrow> string" where
  "str_int i = (if i < 0 then CHR ''-'' # str_nat (nat (- i)) else str_nat (nat i))"

text \<open>The text of a cell in a CSV file: nothing for a missing value.\<close>

fun csv_cell :: "platform \<Rightarrow> cell \<Rightarrow> string" where
  "csv_cell pf NoneCell = []"
| "csv_cell pf (StrCell s) = s"
| "csv_cell pf (IntCell n) = str_int n"
| "csv_cell pf (FloatCell d) = (if is_nan d then [] else float_str pf d)"

text \<open>
  The \<^verbatim>\<open>csv\<close> writer with minimal quoting: a field is quoted when it holds the delimiter,
  the quote character, a line feed, a carriage return or a character of the line
  terminator; inside the quotes a quote character is doubled. Older interpreters quote a
  line break only when the line terminator holds it; the two writers differ on a field
  with a carriage return under the terminator of one line feed, and nowhere else for the
  terminators \<^verbatim>\<open>\n\<close> and \<^verbatim>\<open>\r\n\<close>.
\<close>

definition special :: "string \<Rightarrow> char \<Rightarrow> bool" where
  "special terminator c =
     (c = CHR '','' \<or> c = CHR 0x22 \<or> c = CHR 0x0A \<or> c = CHR 0x0D \<or> c \<in> set terminator)"

definition csv_field :: "string \<Rightarrow> string \<Rightarrow> string" where
  "csv_field terminator f =
     (if list_ex (special terminator) f
      then CHR 0x22 # concat (map (\<lambda>c. if c = CHR 0x22 then [c, c] else [c]) f) @ [CHR 0x22]
      else f)"

text \<open>
  \<^verbatim>\<open>writer.writerow(row)\<close> without the terminator: the fields joined by commas. A row of
  one empty field is written as two quote characters.
\<close>

definition csv_line :: "string \<Rightarrow> string list \<Rightarrow> string" where
  "csv_line terminator row =
     (if row = [[]] then [CHR 0x22, CHR 0x22]
      else join '','' (map (csv_field terminator) row))"

text \<open>
  The lines of \<^verbatim>\<open>df.to_csv(path, index=index)\<close>: the column labels, then one line per
  row. With \<open>index\<close> every line starts with one more field, the row number (an empty
  label in the header).
\<close>

definition csv_lines :: "platform \<Rightarrow> bool \<Rightarrow> DataFrame \<Rightarrow> string list" where
  "csv_lines pf index df =
     csv_line (linesep pf) ((if index then [[]] else []) @ columns df) #
     map (\<lambda>(i, r). csv_line (linesep pf)
                      ((if index then [str_nat i] else []) @ map (csv_cell pf) r))
         (zip [0..<nrows df] (rows df))"

text \<open>The text of the file: every line followed by the line terminator.\<close>

definition to_csv :: "platform \<Rightarrow> bool \<Rightarrow> DataFrame \<Rightarrow> string" where
  "to_csv pf index df = concat (map (\<lambda>l. l @ linesep pf) (csv_lines pf index df))"

section \<open>Export to JSON\<close>

text \<open>
  \<^verbatim>\<open>df.to_json(path, orient="records")\<close>: the document is a list of objects, one per row,
  each giving every column label its cell.
\<close>

definition to_records :: "DataFrame \<Rightarrow> (string \<times> cell) list list" where
  "to_records df = map (\<lambda>r. zip (columns df) r) (rows df)"

fun json_cell :: "platform \<Rightarrow> cell \<Rightarrow> string" where
  "json_cell pf NoneCell = ''null''"
| "json_cell pf (StrCell s) = json_string pf s"
| "json_cell pf (IntCell n) = str_int n"
| "json_cell pf (FloatCell d) = json_float pf d"

definition json_member :: "platform \<Rightarrow> string \<times> cell \<Rightarrow> string" where
  "json_member pf kv = json_string pf (fst kv) @ '':'' @ json_cell pf (snd kv)"

definition json_object :: "platform \<Rightarrow> (string \<times> cell) list \<Rightarrow> string" where
  "json_object pf kvs = ''{'' @ join '','' (map (json_member pf) kvs) @ ''}''"

definition to_json :: "platform \<Rightarrow> DataFrame \<Rightarrow> string" where
  "to_json pf df = ''['' @ join '','' (map (json_object pf) (to_records df)) @ '']''"

section \<open>The two export methods and the run\<close>

text \<open>
  \<^verbatim>\<open>save_to_csv\<close> (line 61) and \<^verbatim>\<open>save_to_json\<close> (line 74): each derives the frame from
  the collection as it is at the call and writes one file.
\<close>

definition save_to_csv :: "platform \<Rightarrow> string \<Rightarrow> 'b frame \<Rightarrow> 'b frame" where
  "save_to_csv pf filename s =
     s\<lparr>files := (files s)(filename @ ''.csv'' \<mapsto> to_csv pf False (dataframe pf (collection s)))\<rparr>"

definition save_to_json :: "platform \<Rightarrow> string \<Rightarrow> 'b frame \<Rightarrow> 'b frame" where
  "save_to_json pf filename s =
     s\<lparr>files := (files s)(filename @ ''.json'' \<mapsto> to_json pf (dataframe pf (collection s)))\<rparr>"

text \<open>Line 89: \<^verbatim>\<open>playwright.chromium.launch(headless=False)\<close>.\<close>

definition launch_arguments :: launch_options where
  "launch_arguments = \<lparr>headless = False\<rparr>"

text \<open>
  The state at line 92: the browser just launched, no object, \<open>product\<close> unbound, an
  empty collection.
\<close>

definition initial :: "'b playwright \<Rightarrow> 'b frame" where
  "initial api =
     \<lparr>browser = launch api launch_arguments, heap = [], product = None,
      product_list = [], stdout = [], files = Map.empty\<rparr>"

text \<open>
  \<^verbatim>\<open>scrape_g2crowd_urls\<close>, lines 77 to 165: the loop, then the two exports. An exception
  that leaves the loop leaves the function, and nothing is exported.
\<close>

definition scrape_g2crowd_urls ::
  "platform \<Rightarrow> 'b playwright \<Rightarrow> string list \<Rightarrow> exn option \<times> 'b frame" where
  "scrape_g2crowd_urls pf api g2crowd_urls =
     (case scrape_loop pf api g2crowd_urls (initial api) of
        (Some e, s) \<Rightarrow> (Some e, s)
      | (None, s) \<Rightarrow> (None, save_to_json pf ''g2_data'' (save_to_csv pf ''g2_data'' s)))"

section \<open>The table, record by record\<close>

text \<open>
  What the specification says of the table, for comparison with the frame built above. The column
  of review counts is a column of floats exactly when it holds both a count and a
  \<open>None\<close>; the cell of a record in that column follows.
\<close>

definition mixed_reviews :: "GProduct list \<Rightarrow> bool" where
  "mixed_reviews ps =
     (list_ex (\<lambda>p. reviews p = None) ps \<and> list_ex (\<lambda>p. reviews p \<noteq> None) ps)"

definition reviews_cell :: "platform \<Rightarrow> bool \<Rightarrow> int option \<Rightarrow> cell" where
  "reviews_cell pf as_float r =
     (case r of
        None \<Rightarrow> if as_float then FloatCell nan else NoneCell
      | Some n \<Rightarrow> if as_float then FloatCell (int_to_double pf n) else IntCell n)"

definition title_cell :: "string option \<Rightarrow> cell" where
  "title_cell t = (case t of None \<Rightarrow> NoneCell | Some text \<Rightarrow> StrCell text)"

definition record_cells :: "platform \<Rightarrow> GProduct list \<Rightarrow> GProduct \<Rightarrow> cell list" where
  "record_cells pf ps p =
     [title_cell (title p),
      reviews_cell pf (mixed_reviews ps) (reviews p),
      FloatCell (seo_ease_use_average p),
      FloatCell (seo_quality_support_average p),
      FloatCell (seo_ease_setup_average p)]"

text \<open>A text without line feed and carriage return, and a record whose title is one.\<close>

definition single_line :: "string \<Rightarrow> bool" where
  "single_line t = list_all (\<lambda>c. c \<noteq> CHR 0x0A \<and> c \<noteq> CHR 0x0D) t"

definition single_line_title :: "GProduct \<Rightarrow> bool" where
  "single_line_title p = (case title p of None \<Rightarrow> True | Some t \<Rightarrow> single_line t)"

section \<open>Reading a JSON document\<close>

text \<open>The five column labels, in the order the dataclass declares its fields.\<close>

definition field_names :: "string list" where
  "field_names =
     [''title'', ''reviews'', ''seo_ease_use_average'', ''seo_quality_support_average'',
      ''seo_ease_setup_average'']"

text \<open>A value of the documents read here: \<^verbatim>\<open>null\<close>, a string, or a number kept as its text.\<close>

datatype jvalue = JNull | JString string | JNumber string

text \<open>The four hexadecimal digits of \<^verbatim>\<open>\uXXXX\<close>, for a code point below 256.\<close>

definition hex_value :: "char \<Rightarrow> nat option" where
  "hex_value c =
     (let n = (of_char c :: nat)
      in if 48 \<le> n \<and> n \<le> 57 then Some (n - 48)
         else if 97 \<le> n \<and> n \<le> 102 then Some (n - 87)
         else if 65 \<le> n \<and> n \<le> 70 then Some (n - 55)
         else None)"

definition hex4 :: "char \<Rightarrow> char \<Rightarrow> char \<Rightarrow> char \<Rightarrow> char option" where
  "hex4 a b c d =
     (case hex_value a of None \<Rightarrow> None | Some w \<Rightarrow>
      case hex_value b of None \<Rightarrow> None | Some x \<Rightarrow>
      case hex_value c of None \<Rightarrow> None | Some y \<Rightarrow>
      case hex_value d of None \<Rightarrow> None | Some z \<Rightarrow>
        if w = 0 \<and> x = 0 then Some (char_of (16 * y + z)) else None)"

text \<open>The character after a backslash in a string.\<close>

definition unescape :: "char \<Rightarrow> char option" where
  "unescape e =
     (if e = CHR 0x22 \<or> e = CHR 0x5C \<or> e = CHR ''/'' then Some e
      else if e = CHR ''b'' then Some (CHR 0x08)
      else if e = CHR ''f'' then Some (CHR 0x0C)
      else if e = CHR ''n'' then Some (CHR 0x0A)
      else if e = CHR ''r'' then Some (CHR 0x0D)
      else if e = CHR ''t'' then Some (CHR 0x09)
      else None)"

text \<open>
  A string after its opening quote: the text up to the closing quote, with the escapes
  resolved, and what follows the closing quote. A control character that is not escaped
  is refused.
\<close>

definition decoded :: "char \<Rightarrow> (string \<times> string) option \<Rightarrow> (string \<times> string) option" where
  "decoded c r = map_option (\<lambda>(s, rest). (c # s, rest)) r"

fun string_body :: "string \<Rightarrow> (string \<times> string) option" where
  "string_body [] = None"
| "string_body (c # cs) =
     (if c = CHR 0x22 then Some ([], cs)
      else if c = CHR 0x5C then
        (case cs of
           [] \<Rightarrow> None
         | e # es \<Rightarrow>
             if e = CHR ''u'' then
               (case es of
                  h1 # h2 # h3 # h4 # rest \<Rightarrow>
                    (case hex4 h1 h2 h3 h4 of
                       None \<Rightarrow> None
                     | Some ch \<Rightarrow> decoded ch (string_body rest))
                | _ \<Rightarrow> None)
             else
               (case unescape e of
                  None \<Rightarrow> None
                | Some ch \<Rightarrow> decoded ch (string_body es)))
      else if (of_char c :: nat) < 32 then None
      else decoded c (string_body cs))"

definition parse_string :: "string \<Rightarrow> (string \<times> string) option" where
  "parse_string t =
     (case t of [] \<Rightarrow> None | c # cs \<Rightarrow> if c = CHR 0x22 then string_body cs else None)"

text \<open>
  A number: an optional minus sign, an integer part without a leading zero, an optional
  fraction, an optional exponent.
\<close>

definition number_char :: "char \<Rightarrow> bool" where
  "number_char c =
     (is_digit c \<or> c = CHR ''-'' \<or> c = CHR ''+'' \<or> c = CHR ''.'' \<or> c = CHR ''e'' \<or> c = CHR ''E'')"

definition digits1 :: "string \<Rightarrow> bool" where
  "digits1 t = (t \<noteq> [] \<and> list_all is_digit t)"

definition strip_minus :: "string \<Rightarrow> string" where
  "strip_minus t = (case t of [] \<Rightarrow> [] | c # r \<Rightarrow> if c = CHR ''-'' then r else t)"

definition json_int :: "string \<Rightarrow> bool" where
  "json_int t = (digits1 t \<and> (length t = 1 \<or> hd t \<noteq> CHR ''0''))"

definition json_fraction :: "string \<Rightarrow> bool \<times> string" where
  "json_fraction t =
     (case t of
        [] \<Rightarrow> (True, [])
      | c # r \<Rightarrow>
          if c = CHR ''.'' then (digits1 (takeWhile is_digit r), dropWhile is_digit r)
          else (True, t))"

definition strip_sign :: "string \<Rightarrow> string" where
  "strip_sign t =
     (case t of [] \<Rightarrow> [] | c # r \<Rightarrow> if c = CHR ''+'' \<or> c = CHR ''-'' then r else t)"

definition json_exponent :: "string \<Rightarrow> bool" where
  "json_exponent t =
     (case t of
        [] \<Rightarrow> True
      | c # r \<Rightarrow> (c = CHR ''e'' \<or> c = CHR ''E'') \<and> digits1 (strip_sign r))"

definition json_number :: "string \<Rightarrow> bool" where
  "json_number t =
     (json_int (takeWhile is_digit (strip_minus t))
      \<and> fst (json_fraction (dropWhile is_digit (strip_minus t)))
      \<and> json_exponent (snd (json_fraction (dropWhile is_digit (strip_minus t)))))"

text \<open>A string, \<^verbatim>\<open>null\<close> or a number, and what follows it.\<close>

definition parse_scalar :: "string \<Rightarrow> (jvalue \<times> string) option" where
  "parse_scalar t =
     (case parse_string t of
        Some (s, r) \<Rightarrow> Some (JString s, r)
      | None \<Rightarrow>
          if take 4 t = ''null'' then Some (JNull, drop 4 t)
          else if json_number (takeWhile number_char t)
          then Some (JNumber (takeWhile number_char t), dropWhile number_char t)
          else None)"

text \<open>
  The members of an object after its opening brace, up to the closing brace, and the
  objects of an array after its opening bracket, up to the closing bracket. The first
  argument bounds the number of members, or of objects, that are read; \<open>json_loads\<close>
  passes the length of the text, which no document exceeds.
\<close>

fun parse_members :: "nat \<Rightarrow> string \<Rightarrow> ((string \<times> jvalue) list \<times> string) option" where
  "parse_members 0 t = None"
| "parse_members (Suc n) t =
     (case parse_string t of
        None \<Rightarrow> None
      | Some (k, t1) \<Rightarrow>
          (case t1 of
             [] \<Rightarrow> None
           | c # t2 \<Rightarrow>
               if c \<noteq> CHR '':'' then None
               else
                 (case parse_scalar t2 of
                    None \<Rightarrow> None
                  | Some (v, t3) \<Rightarrow>
                      (case t3 of
                         [] \<Rightarrow> None
                       | d # t4 \<Rightarrow>
                           if d = CHR ''}'' then Some ([(k, v)], t4)
                           else if d = CHR '','' then
                             map_option (\<lambda>(kvs, rest). ((k, v) # kvs, rest)) (parse_members n t4)
                           else None))))"

definition parse_object :: "nat \<Rightarrow> string \<Rightarrow> ((string \<times> jvalue) list \<times> string) option" where
  "parse_object n t =
     (case t of
        [] \<Rightarrow> None
      | c # r \<Rightarrow>
          if c \<noteq> CHR ''{'' then None
          else
            (case r of
               [] \<Rightarrow> None
             | d # r' \<Rightarrow> if d = CHR ''}'' then Some ([], r') else parse_members n r))"

fun parse_objects ::
  "nat \<Rightarrow> string \<Rightarrow> ((string \<times> jvalue) list list \<times> string) option" where
  "parse_objects 0 t = None"
| "parse_objects (Suc n) t =
     (case parse_object (length t) t of
        None \<Rightarrow> None
      | Some (obj, t1) \<Rightarrow>
          (case t1 of
             [] \<Rightarrow> None
           | d # t2 \<Rightarrow>
               if d = CHR '']'' then Some ([obj], t2)
               else if d = CHR '','' then
                 map_option (\<lambda>(objs, rest). (obj # objs, rest)) (parse_objects n t2)
               else None))"

text \<open>
  The decoder: the text of an array of objects whose values are strings, numbers or
  \<^verbatim>\<open>null\<close>, written without white space as \<^verbatim>\<open>to_json\<close> writes it, gives the list of
  its objects, each the list of its members in the order of the text. Any other text gives
  \<open>None\<close>.
\<close>

definition json_loads :: "string \<Rightarrow> (string \<times> jvalue) list list option" where
  "json_loads t =
     (case t of
        [] \<Rightarrow> None
      | c # r \<Rightarrow>
          if c \<noteq> CHR ''['' then None
          else
            (case r of
               [] \<Rightarrow> None
             | d # r' \<Rightarrow>
                 if d = CHR '']'' then (if r' = [] then Some [] else None)
                 else
                   (case parse_objects (length t) r of
                      None \<Rightarrow> None
                    | Some (objs, rest) \<Rightarrow> if rest = [] then Some objs else None)))"

text \<open>
  The value a cell is read back as, and the object a record is read back as: the five
  field names, each with the value of its cell.
\<close>

fun json_value :: "platform \<Rightarrow> cell \<Rightarrow> jvalue" where
  "json_value pf NoneCell = JNull"
| "json_value pf (StrCell s) = JString s"
| "json_value pf (IntCell n) = JNumber (str_int n)"
| "json_value pf (FloatCell d) =
     (if json_float pf d = ''null'' then JNull else JNumber (json_float pf d))"

definition decoded_record ::
  "platform \<Rightarrow> GProduct list \<Rightarrow> GProduct \<Rightarrow> (string \<times> jvalue) list" where
  "decoded_record pf ps p = zip field_names (map (json_value pf) (record_cells pf ps p))"

section \<open>Concrete inputs\<close>

text \<open>
  A platform for the examples. Its conversions are given on the few values the examples
  use: 8.5, 9.1, 8.7 and 234.0 with their binary64 bits. In a JSON file a NaN and an
  infinity are written \<^verbatim>\<open>null\<close>.
\<close>

definition table_float :: "double \<Rightarrow> string" where
  "table_float d =
     (if d = 0x4021000000000000 then ''8.5''
      else if d = 0x4022333333333333 then ''9.1''
      else if d = 0x4021666666666666 then ''8.7''
      else if d = 0x406D400000000000 then ''234.0''
      else ''0.0'')"

definition table_platform :: platform where
  "table_platform =
     \<lparr>max_str_digits = 4300,
      strtod = (\<lambda>t. if t = ''8.5'' then Some 0x4021000000000000
                     else if t = ''9.1'' then Some 0x4022333333333333
                     else if t = ''8.7'' then Some 0x4021666666666666
                     else None),
      int_to_double = (\<lambda>n. if n = 234 then 0x406D400000000000 else 0),
      float_str = table_float,
      json_float = (\<lambda>d. if 0x7FF0000000000000 \<le> (d AND 0x7FFFFFFFFFFFFFFF) then ''null''
                         else table_float d),
      json_string = (\<lambda>s. CHR 0x22 # s @ [CHR 0x22]),
      linesep = [CHR 0x0A]\<rparr>"

text \<open>
  A browser whose page answers by selector alone, and whose navigation answers by URL
  alone. Its state counts the calls of \<open>goto\<close>.
\<close>

definition static_page ::
  "(string \<Rightarrow> exn option) \<Rightarrow> (string \<Rightarrow> exn + string) \<Rightarrow> (string \<Rightarrow> exn + string list)
   \<Rightarrow> nat playwright" where
  "static_page nav texts text_lists =
     \<lparr>launch = (\<lambda>_. 0),
      goto = (\<lambda>url b. (nav url, Suc b)),
      wait_for_load_state = (\<lambda>b. (None, b)),
      inner_text = (\<lambda>x b. (texts x, b)),
      all_inner_texts = (\<lambda>x b. (text_lists x, b))\<rparr>"

text \<open>A browser whose state is the options it was launched with.\<close>

definition recording_browser :: "launch_options playwright" where
  "recording_browser =
     \<lparr>launch = (\<lambda>opts. opts),
      goto = (\<lambda>url b. (None, b)),
      wait_for_load_state = (\<lambda>b. (None, b)),
      inner_text = (\<lambda>x b. (Inl (PlaywrightTimeoutError ''Timeout 30000ms exceeded.''), b)),
      all_inner_texts = (\<lambda>x b. (Inr [], b))\<rparr>"

text \<open>
  A page of the product Conductor: a title, the texts \<open>Reviews\<close> and \<open>234\<close> under the
  review selector, 8.5 for ease of use and 9.1 under the selector that quality of support
  and ease of setup share.
\<close>

definition conductor_text :: "string \<Rightarrow> exn + string" where
  "conductor_text x =
     (if x = title_xpath then Inr ''Conductor''
      else if x = seo_ease_use_average_xpath then Inr ''8.5''
      else if x = seo_quality_support_average_xpath then Inr ''9.1''
      else Inl (PlaywrightTimeoutError ''Timeout 30000ms exceeded.''))"

definition conductor_reviews :: "string \<Rightarrow> exn + string list" where
  "conductor_reviews x = Inr [''Reviews'', ''234'']"

definition conductor_url :: string where
  "conductor_url = ''https://www.g2.com/products/conductor/features''"

definition missing_url :: string where
  "missing_url = ''https://www.g2.com/products/missing/features''"

definition conductor_record :: GProduct where
  "conductor_record =
     \<lparr>title = Some ''Conductor'', reviews = Some 234,
      seo_ease_use_average = 0x4021000000000000,
      seo_quality_support_average = 0x4022333333333333,
      seo_ease_setup_average = 0x4022333333333333\<rparr>"

text \<open>Navigation that fails for every URL, and navigation that reaches the one page only.\<close>

definition unreachable :: "string \<Rightarrow> exn option" where
  "unreachable url = Some (PlaywrightError ''net::ERR_INTERNET_DISCONNECTED'')"

definition reachable :: "string \<Rightarrow> exn option" where
  "reachable url =
     (if url = conductor_url then None else Some (PlaywrightError ''net::ERR_ABORTED''))"

definition offline_browser :: "nat playwright" where
  "offline_browser = static_page unreachable conductor_text conductor_reviews"

definition conductor_browser :: "nat playwright" where
  "conductor_browser = static_page reachable conductor_text conductor_reviews"







text \<open>A page whose score elements read \<open>nan\<close>.\<close>

definition nan_text :: "string \<Rightarrow> exn + string" where
  "nan_text x = (if x = title_xpath then Inr ''Conductor'' else Inr ''nan'')"

definition nan_browser :: "nat playwright" where
  "nan_browser = static_page (\<lambda>url. None) nan_text conductor_reviews"

section \<open>Facts about the string operations\<close>

lemma push_not_Nil: "push c ts \<noteq> []"
  by (cases ts) simp_all

lemma split_not_Nil: "split sep s \<noteq> []"
  by (induction s) (simp_all add: push_not_Nil)














section \<open>The browser is launched with a window\<close>

text \<open>
  C8, as the specification states it: the browser acquired at the start of a run is
  launched in headless mode. The run below starts the recording browser, whose state is
  the options it received: \<open>headless\<close> is off.
\<close>

theorem run_launches_headed_browser:
  "\<not> headless (browser (snd (scrape_g2crowd_urls table_platform recording_browser [])))"
  by (simp add: scrape_g2crowd_urls_def initial_def launch_arguments_def recording_browser_def
      save_to_csv_def save_to_json_def)

text \<open>
  C8, amended: every run starts from the browser that \<open>launch\<close> returns for the options
  \<open>headless = False\<close>.
\<close>

theorem launch_headless_False:
  "browser (initial api) = launch api \<lparr>headless = False\<rparr>"
  by (simp add: initial_def launch_arguments_def)

section \<open>Export of the empty collection\<close>

lemma keys_in_order_Nil: "keys_in_order [] = []"
  by (simp add: keys_in_order_def)

lemma dataframe_Nil: "dataframe pf [] = \<lparr>columns = [], nrows = 0, data = []\<rparr>"
  by (simp add: dataframe_def json_normalize_def keys_in_order_Nil)

lemma to_csv_empty: "to_csv pf False (dataframe pf []) = linesep pf"
  by (simp add: to_csv_def csv_lines_def csv_line_def dataframe_Nil rows_def)

lemma to_json_empty: "to_json pf (dataframe pf []) = ''[]''"
  by (simp add: to_json_def to_records_def dataframe_Nil rows_def)

text \<open>
  C4, as the specification states it: the CSV file of an empty collection is one line
  with the five field names. The file written from the initial state, whose collection
  is empty, is a lone line feed.
\<close>

theorem empty_csv_has_no_field_names:
  "files (save_to_csv table_platform ''g2_data'' (initial recording_browser)) ''g2_data.csv''
     = Some [CHR 0x0A]
   \<and> files (save_to_csv table_platform ''g2_data'' (initial recording_browser)) ''g2_data.csv''
     \<noteq> Some (join '','' field_names @ [CHR 0x0A])"
  by (simp add: save_to_csv_def collection_def initial_def to_csv_empty table_platform_def
      field_names_def)

text \<open>
  C4, amended: for an empty collection \<^verbatim>\<open>save_to_csv\<close> writes one empty line, that is the
  line terminator alone, and \<^verbatim>\<open>save_to_json\<close> writes the empty array.
\<close>

theorem export_of_empty_collection:
  assumes "product_list s = []"
  shows "files (save_to_csv pf filename s) (filename @ ''.csv'') = Some (linesep pf)
       \<and> files (save_to_json pf filename s) (filename @ ''.json'') = Some ''[]''"
  using assms
  by (simp add: save_to_csv_def save_to_json_def collection_def to_csv_empty to_json_empty)

theorem export_of_empty_collection_witness:
  "product_list (initial recording_browser) = []
   \<and> files (save_to_csv table_platform ''g2_data'' (initial recording_browser)) ''g2_data.csv''
       = Some [CHR 0x0A]
   \<and> files (save_to_json table_platform ''g2_data'' (initial recording_browser)) ''g2_data.json''
       = Some ''[]''"
proof -
  have e: "product_list (initial recording_browser) = []"
    by (simp add: initial_def)
  show ?thesis
    using e export_of_empty_collection [OF e, of table_platform "''g2_data''"]
    by (simp add: table_platform_def)
qed

section \<open>The loop\<close>

lemma try_body_navigate:
  "try_body pf api url s =
     (case navigate api url (browser s) of
        (Some e, b) \<Rightarrow> (Some e, s\<lparr>browser := b\<rparr>)
      | (None, b) \<Rightarrow> extraction pf api (s\<lparr>browser := b\<rparr>))"
proof -
  obtain r1 b1 where g: "goto api url (browser s) = (r1, b1)"
    by (cases "goto api url (browser s)")
  obtain r2 b2 where w: "wait_for_load_state api b1 = (r2, b2)"
    by (cases "wait_for_load_state api b1")
  show ?thesis
  proof (cases r1)
    case (Some e)
    then show ?thesis
      by (simp add: try_body_def navigate_def await_page_def g)
  next
    case None
    then show ?thesis
      by (cases r2) (simp_all add: try_body_def extraction_def navigate_def await_page_def g w)
  qed
qed

lemma kept_refl: "kept s s" by (simp add: kept_def)
lemma kept_trans: "kept s s' \<Longrightarrow> kept s' s'' \<Longrightarrow> kept s s''" by (simp add: kept_def)

lemma set_field_kept: "set_field upd s = (r, s') \<Longrightarrow> kept s s'"
  by (auto simp: set_field_def kept_def split: option.splits)

lemma assign_title_kept: "assign_title api s = (r, s') \<Longrightarrow> kept s s'"
  by (auto simp: assign_title_def kept_def set_field_def split: prod.splits sum.splits option.splits)

lemma assign_reviews_kept: "assign_reviews pf api s = (r, s') \<Longrightarrow> kept s s'"
  by (auto simp: assign_reviews_def kept_def set_field_def split: prod.splits sum.splits option.splits)

lemma assign_average_kept: "assign_average pf api x f s = (r, s') \<Longrightarrow> kept s s'"
  by (auto simp: assign_average_def kept_def set_field_def split: prod.splits sum.splits option.splits)

lemma seq_kept:
  assumes "seq fs s = (r, s')"
    and "\<And>f s r s'. f \<in> set fs \<Longrightarrow> f s = (r, s') \<Longrightarrow> kept s s'"
  shows "kept s s'"
  using assms
proof (induction fs arbitrary: s)
  case Nil
  then show ?case by (simp add: kept_refl)
next
  case (Cons f fs)
  obtain r1 s1 where f: "f s = (r1, s1)" by (cases "f s")
  have k1: "kept s s1" using Cons.prems(2) [of f s r1 s1] f by simp
  show ?case
  proof (cases r1)
    case None
    then have run: "seq fs s1 = (r, s')" using Cons.prems(1) f by simp
    have "kept s1 s'"
    proof (rule Cons.IH [OF run])
      fix g t q t'
      assume "g \<in> set fs" and "g t = (q, t')"
      then show "kept t t'" using Cons.prems(2) [of g t q t'] by simp
    qed
    then show ?thesis using k1 kept_trans by blast
  next
    case (Some e)
    then show ?thesis using Cons.prems(1) f k1 by simp
  qed
qed

lemma extraction_frame:
  assumes "extraction pf api s = (r, s')"
  shows "product s' = Some (length (heap s)) \<and> product_list s' = product_list s
       \<and> stdout s' = stdout s \<and> files s' = files s \<and> length (heap s') = Suc (length (heap s))"
proof -
  let ?s1 = "s\<lparr>heap := heap s @ [new_GProduct], product := Some (length (heap s))\<rparr>"
  let ?rest = "[assign_title api,
          assign_reviews pf api,
          assign_average pf api seo_ease_use_average_xpath
            (\<lambda>d p. p\<lparr>seo_ease_use_average := d\<rparr>),
          assign_average pf api seo_quality_support_average_xpath
            (\<lambda>d p. p\<lparr>seo_quality_support_average := d\<rparr>),
          assign_average pf api seo_ease_setup_average_xpath
            (\<lambda>d p. p\<lparr>seo_ease_setup_average := d\<rparr>)]"
  have unfold: "extraction pf api s = seq ?rest ?s1"
    by (simp add: extraction_def bind_new_product_def)
  have run: "seq ?rest ?s1 = (r, s')"
    using assms unfolding unfold .
  have "kept ?s1 s'"
  proof (rule seq_kept [OF run])
    fix g t q t'
    assume "g \<in> set ?rest" and "g t = (q, t')"
    then show "kept t t'"
      by (auto dest: assign_title_kept assign_reviews_kept assign_average_kept)
  qed
  then show ?thesis by (simp add: kept_def)
qed


lemma loop_body_unfold:
  "loop_body pf api url s =
     (case try_except pf api url s of
        (Some e, s') \<Rightarrow> (Some e, s')
      | (None, s') \<Rightarrow> append_product s')"
  by (cases "try_except pf api url s") (auto simp: loop_body_def split: option.splits prod.splits)

lemma loop_body_navigation_raises:
  assumes "navigate api url (browser s) = (Some e, b)" and "caught e = Some m"
  shows "loop_body pf api url s =
           append_product (s\<lparr>browser := b, stdout := stdout s @ [error_line url m]\<rparr>)"
  using assms by (simp add: loop_body_unfold try_except_def try_body_navigate)


lemma loop_body_returns:
  assumes "loop_body pf api url s = (None, s')"
  shows "\<exists>r. product s' = Some r \<and> product_list s' = product_list s @ [r]"
proof -
  obtain q t where te: "try_except pf api url s = (q, t)"
    by (cases "try_except pf api url s")
  have q: "q = None" and ap: "append_product t = (None, s')"
    using assms te by (auto simp: loop_body_unfold split: option.splits)
  have pl: "product_list t = product_list s"
  proof (cases "navigate api url (browser s)")
    case (Pair r1 b)
    show ?thesis
    proof (cases r1)
      case (Some e)
      then show ?thesis
        using te Pair by (auto simp: try_except_def try_body_navigate split: option.splits)
    next
      case None
      obtain r2 s2 where ex: "extraction pf api (s\<lparr>browser := b\<rparr>) = (r2, s2)"
        by (cases "extraction pf api (s\<lparr>browser := b\<rparr>)")
      have "product_list s2 = product_list s"
        using extraction_frame [OF ex] by simp
      then show ?thesis
        using te Pair None ex
        by (auto simp: try_except_def try_body_navigate split: option.splits)
    qed
  qed
  show ?thesis
    using ap pl by (auto simp: append_product_def split: option.splits)
qed

lemma scrape_loop_append:
  "scrape_loop pf api (us @ vs) s =
     (case scrape_loop pf api us s of
        (Some e, s') \<Rightarrow> (Some e, s')
      | (None, s') \<Rightarrow> scrape_loop pf api vs s')"
proof (induction us arbitrary: s)
  case Nil
  show ?case by simp
next
  case (Cons u us)
  show ?case
  proof (cases "loop_body pf api u s")
    case (Pair r t)
    then show ?thesis using Cons.IH [of t] by (cases r) simp_all
  qed
qed

lemma scrape_loop_last:
  assumes "scrape_loop pf api us s = (None, s')" and "us \<noteq> []"
  shows "product s' = Some (last (product_list s')) \<and> product_list s' \<noteq> []"
  using assms
proof (induction us arbitrary: s)
  case Nil
  then show ?case by simp
next
  case (Cons u us)
  obtain r t where lb: "loop_body pf api u s = (r, t)"
    by (cases "loop_body pf api u s")
  have r: "r = None" and rest: "scrape_loop pf api us t = (None, s')"
    using Cons.prems(1) lb by (auto split: option.splits)
  show ?case
  proof (cases "us = []")
    case True
    then have "s' = t" using rest by simp
    then show ?thesis using loop_body_returns [of pf api u s t] lb r by auto
  next
    case False
    then show ?thesis using Cons.IH [OF rest] by simp
  qed
qed

section \<open>A failed navigation\<close>

text \<open>
  C1, on the code: the first URL cannot be reached, \<^verbatim>\<open>goto\<close> raises a Playwright error.
  The error is printed; the append after the \<^verbatim>\<open>try\<close> statement then reads the variable
  \<open>product\<close>, which was never bound, and the run ends with \<open>UnboundLocalError\<close>: no record
  is in the collection and no file is written.
\<close>

theorem unreachable_first_url_ends_run:
  "fst (scrape_g2crowd_urls table_platform offline_browser [conductor_url])
     = Some UnboundLocalError
   \<and> collection (snd (scrape_g2crowd_urls table_platform offline_browser [conductor_url])) = []
   \<and> stdout (snd (scrape_g2crowd_urls table_platform offline_browser [conductor_url]))
     = [''Error scraping https://www.g2.com/products/conductor/features: net::ERR_INTERNET_DISCONNECTED'']
   \<and> files (snd (scrape_g2crowd_urls table_platform offline_browser [conductor_url]))
       ''g2_data.csv'' = None
   \<and> files (snd (scrape_g2crowd_urls table_platform offline_browser [conductor_url]))
       ''g2_data.json'' = None"
  by code_simp

text \<open>
  C10: a caught failure of the navigation, that is before the record is created. After
  the URLs \<open>visited\<close> the state is \<open>s\<close>; the navigation to \<open>url\<close> raises \<open>e\<close>, which the
  \<^verbatim>\<open>except\<close> clause catches and prints. No record is created. If \<open>url\<close> is the first URL
  the variable is unbound and the run ends with \<open>UnboundLocalError\<close>; otherwise the variable
  still refers to the object appended last, that object is appended again, the loop goes
  on, and the collection ends with the same record twice.
\<close>

theorem failed_navigation_appends_no_fresh_record:
  assumes visited: "scrape_loop pf api visited (initial api) = (None, s)"
    and nav: "navigate api url (browser s) = (Some e, b)"
    and c: "caught e = Some m"
  shows "let s1 = s\<lparr>browser := b, stdout := stdout s @ [error_line url m]\<rparr>;
             s2 = s1\<lparr>product_list := product_list s @ [last (product_list s)]\<rparr>
         in if visited = []
            then product s = None
               \<and> scrape_g2crowd_urls pf api (visited @ url # rest) = (Some UnboundLocalError, s1)
            else product s = Some (last (product_list s))
               \<and> loop_body pf api url s = (None, s2)
               \<and> scrape_loop pf api (visited @ url # rest) (initial api) = scrape_loop pf api rest s2
               \<and> collection s2 = collection s @ [last (collection s)]"
proof (cases "visited = []")
  case True
  then have s: "s = initial api" using visited by simp
  have p: "product s = None" by (simp add: s initial_def)
  have "loop_body pf api url s =
          (Some UnboundLocalError, s\<lparr>browser := b, stdout := stdout s @ [error_line url m]\<rparr>)"
    by (simp add: loop_body_navigation_raises [OF nav c] append_product_def p)
  then show ?thesis
    using True p s by (simp add: scrape_g2crowd_urls_def Let_def)
next
  case False
  have p: "product s = Some (last (product_list s))" and ne: "product_list s \<noteq> []"
    using scrape_loop_last [OF visited False] by simp_all
  have lb: "loop_body pf api url s =
          (None, s\<lparr>browser := b, stdout := stdout s @ [error_line url m],
                   product_list := product_list s @ [last (product_list s)]\<rparr>)"
    by (simp add: loop_body_navigation_raises [OF nav c] append_product_def p)
  have run: "scrape_loop pf api (visited @ url # rest) (initial api) =
          scrape_loop pf api rest (s\<lparr>browser := b, stdout := stdout s @ [error_line url m],
                   product_list := product_list s @ [last (product_list s)]\<rparr>)"
    by (simp add: scrape_loop_append visited lb)
  have col: "collection (s\<lparr>browser := b, stdout := stdout s @ [error_line url m],
                   product_list := product_list s @ [last (product_list s)]\<rparr>)
             = collection s @ [last (collection s)]"
    using ne by (simp add: collection_def last_map)
  show ?thesis
    using False p lb run col by (simp add: Let_def)
qed

theorem failed_navigation_appends_no_fresh_record_witness:
  "fst (scrape_g2crowd_urls table_platform offline_browser [conductor_url, missing_url])
     = Some UnboundLocalError
   \<and> scrape_loop table_platform conductor_browser [conductor_url] (initial conductor_browser)
     = (None, snd (scrape_loop table_platform conductor_browser [conductor_url]
                     (initial conductor_browser)))
   \<and> navigate conductor_browser missing_url
        (browser (snd (scrape_loop table_platform conductor_browser [conductor_url]
                         (initial conductor_browser))))
     = (Some (PlaywrightError ''net::ERR_ABORTED''), 2)
   \<and> product_list (snd (scrape_loop table_platform conductor_browser
                          [conductor_url, missing_url] (initial conductor_browser))) = [0, 0]
   \<and> collection (snd (scrape_loop table_platform conductor_browser
                        [conductor_url, missing_url] (initial conductor_browser)))
     = [conductor_record, conductor_record]"
proof -
  let ?s0 = "initial offline_browser"
  have v0: "scrape_loop table_platform offline_browser [] ?s0 = (None, ?s0)"
    by simp
  have n0: "navigate offline_browser conductor_url (browser ?s0)
              = (Some (PlaywrightError ''net::ERR_INTERNET_DISCONNECTED''), 1)"
    by code_simp
  have c0: "caught (PlaywrightError ''net::ERR_INTERNET_DISCONNECTED'')
              = Some ''net::ERR_INTERNET_DISCONNECTED''"
    by simp
  have first: "fst (scrape_g2crowd_urls table_platform offline_browser
                      [conductor_url, missing_url]) = Some UnboundLocalError"
    using failed_navigation_appends_no_fresh_record [OF v0 n0 c0, of "[missing_url]"]
    by (simp add: Let_def)
  let ?s = "snd (scrape_loop table_platform conductor_browser [conductor_url]
                   (initial conductor_browser))"
  have "fst (scrape_loop table_platform conductor_browser [conductor_url]
               (initial conductor_browser)) = None"
    by code_simp
  then have v1: "scrape_loop table_platform conductor_browser [conductor_url]
                   (initial conductor_browser) = (None, ?s)"
    by (simp add: prod_eq_iff)
  have n1: "navigate conductor_browser missing_url (browser ?s)
              = (Some (PlaywrightError ''net::ERR_ABORTED''), 2)"
    by code_simp
  have c1: "caught (PlaywrightError ''net::ERR_ABORTED'') = Some ''net::ERR_ABORTED''"
    by simp
  have pl: "product_list ?s = [0]"
    by code_simp
  have col: "collection ?s = [conductor_record]"
    by code_simp
  have later: "product_list (snd (scrape_loop table_platform conductor_browser
                          [conductor_url, missing_url] (initial conductor_browser))) = [0, 0]
     \<and> collection (snd (scrape_loop table_platform conductor_browser
                        [conductor_url, missing_url] (initial conductor_browser)))
       = [conductor_record, conductor_record]"
    using failed_navigation_appends_no_fresh_record [OF v1 n1 c1, of "[]"] pl col
    by (simp add: Let_def)
  show ?thesis
    using first v1 n1 later by simp
qed

section \<open>Failures of a lookup and failures of a parse\<close>




section \<open>The review count and the literal example\<close>




section \<open>Two fields read through one selector\<close>

lemma seq_returns_append:
  assumes "seq (fs @ gs) s = (None, s')"
  shows "\<exists>t. seq fs s = (None, t) \<and> seq gs t = (None, s')"
  using assms
proof (induction fs arbitrary: s)
  case Nil
  then show ?case by simp
next
  case (Cons f fs)
  obtain r t where f: "f s = (r, t)" by (cases "f s")
  have r: "r = None" and rest: "seq (fs @ gs) t = (None, s')"
    using Cons.prems f by (auto split: option.splits)
  show ?case
    using Cons.IH [OF rest] f r by simp
qed

lemma bind_then_kept:
  assumes run: "seq (bind_new_product # fs) s = (r, t)"
    and fs: "\<And>f s r s'. f \<in> set fs \<Longrightarrow> f s = (r, s') \<Longrightarrow> kept s s'"
  shows "product t = Some (length (heap s)) \<and> product_list t = product_list s
       \<and> stdout t = stdout s \<and> files t = files s \<and> length (heap t) = Suc (length (heap s))"
proof -
  let ?s1 = "s\<lparr>heap := heap s @ [new_GProduct], product := Some (length (heap s))\<rparr>"
  have "seq fs ?s1 = (r, t)"
    using run by (simp add: bind_new_product_def)
  then have "kept ?s1 t"
    by (rule seq_kept) (use fs in blast)
  then show ?thesis by (simp add: kept_def)
qed

lemma assign_average_returns:
  assumes "assign_average pf api x setter t = (None, u)" and "product t = Some r"
  shows "\<exists>text d. fst (inner_text api x (browser t)) = Inr text
           \<and> py_float (strtod pf) text = Inr d
           \<and> heap u = (heap t)[r := setter d (heap t ! r)]
           \<and> product u = Some r"
  using assms
  by (auto simp: assign_average_def set_field_def split: prod.splits sum.splits option.splits)

text \<open>
  C9, as stated: the two fields compare equal with \<^verbatim>\<open>==\<close>. On a page whose score
  elements read \<open>nan\<close>, which answers by selector alone, both fields are assigned the same
  NaN, and a NaN is not equal to itself.
\<close>

theorem nan_scores_are_not_equal:
  "fst (try_body table_platform nan_browser conductor_url (initial nan_browser)) = None
   \<and> (\<forall>x b b'. fst (inner_text nan_browser x b) = fst (inner_text nan_browser x b'))
   \<and> seo_quality_support_average
        (hd (collection (snd (scrape_g2crowd_urls table_platform nan_browser [conductor_url]))))
      = 0x7FF8000000000000
   \<and> seo_ease_setup_average
        (hd (collection (snd (scrape_g2crowd_urls table_platform nan_browser [conductor_url]))))
      = 0x7FF8000000000000
   \<and> \<not> float_eq
        (seo_quality_support_average
          (hd (collection (snd (scrape_g2crowd_urls table_platform nan_browser [conductor_url])))))
        (seo_ease_setup_average
          (hd (collection (snd (scrape_g2crowd_urls table_platform nan_browser [conductor_url])))))"
proof -
  have 1: "fst (try_body table_platform nan_browser conductor_url (initial nan_browser)) = None"
    by code_simp
  have 2: "\<forall>x b b'. fst (inner_text nan_browser x b) = fst (inner_text nan_browser x b')"
    by (simp add: nan_browser_def static_page_def)
  have 3: "seo_quality_support_average
        (hd (collection (snd (scrape_g2crowd_urls table_platform nan_browser [conductor_url]))))
      = 0x7FF8000000000000"
    by code_simp
  have 4: "seo_ease_setup_average
        (hd (collection (snd (scrape_g2crowd_urls table_platform nan_browser [conductor_url]))))
      = 0x7FF8000000000000"
    by code_simp
  have 5: "\<not> float_eq (0x7FF8000000000000 :: double) 0x7FF8000000000000"
    by (simp add: float_eq_def is_nan_def)
  show ?thesis
    using 1 2 5 by (simp add: 3 4)
qed

text \<open>
  C9, amended: the selectors of the two fields are the same string; after an extraction
  that assigned both, on a page that gives equal text for equal selectors, the two
  fields of the new record hold the same value, bit for bit, and they compare equal with
  \<^verbatim>\<open>==\<close> exactly when that value is not a NaN.
\<close>

theorem shared_selector_gives_same_value:
  assumes run: "try_body pf api url s = (None, s')"
    and same: "\<And>x b b'. fst (inner_text api x b) = fst (inner_text api x b')"
  shows "seo_quality_support_average_xpath = seo_ease_setup_average_xpath
       \<and> product s' = Some (length (heap s))
       \<and> seo_quality_support_average (heap s' ! length (heap s))
         = seo_ease_setup_average (heap s' ! length (heap s))
       \<and> float_eq (seo_quality_support_average (heap s' ! length (heap s)))
                  (seo_ease_setup_average (heap s' ! length (heap s)))
         = (\<not> is_nan (seo_quality_support_average (heap s' ! length (heap s))))"
proof -
  let ?X = "seo_quality_support_average_xpath"
  let ?r = "length (heap s)"
  let ?prefix = "[bind_new_product, assign_title api, assign_reviews pf api,
          assign_average pf api seo_ease_use_average_xpath
            (\<lambda>d p. p\<lparr>seo_ease_use_average := d\<rparr>)]"
  let ?q = "assign_average pf api ?X (\<lambda>d p. p\<lparr>seo_quality_support_average := d\<rparr>)"
  let ?st = "assign_average pf api ?X (\<lambda>d p. p\<lparr>seo_ease_setup_average := d\<rparr>)"
  have X: "seo_quality_support_average_xpath = seo_ease_setup_average_xpath"
    by (simp add: seo_quality_support_average_xpath_def seo_ease_setup_average_xpath_def)
  obtain b where nav: "navigate api url (browser s) = (None, b)"
    and ex: "extraction pf api (s\<lparr>browser := b\<rparr>) = (None, s')"
    using run by (auto simp: try_body_navigate split: prod.splits option.splits)
  have "extraction pf api = seq (?prefix @ [?q, ?st])"
    by (simp add: extraction_def X)
  then obtain t where pre: "seq ?prefix (s\<lparr>browser := b\<rparr>) = (None, t)"
    and two: "seq [?q, ?st] t = (None, s')"
    using ex seq_returns_append [of ?prefix "[?q, ?st]" "s\<lparr>browser := b\<rparr>" s'] by auto
  obtain u where q: "?q t = (None, u)" and st: "?st u = (None, s')"
    using seq_returns_append [of "[?q]" "[?st]" t s'] two
    by (auto split: prod.splits option.splits)
  have "product t = Some ?r \<and> length (heap t) = Suc ?r"
  proof -
    have "product t = Some (length (heap (s\<lparr>browser := b\<rparr>)))
           \<and> product_list t = product_list (s\<lparr>browser := b\<rparr>)
           \<and> stdout t = stdout (s\<lparr>browser := b\<rparr>) \<and> files t = files (s\<lparr>browser := b\<rparr>)
           \<and> length (heap t) = Suc (length (heap (s\<lparr>browser := b\<rparr>)))"
      by (rule bind_then_kept [OF pre])
        (auto dest: assign_title_kept assign_reviews_kept assign_average_kept)
    then show ?thesis by simp
  qed
  then have pt: "product t = Some ?r" and len: "?r < length (heap t)"
    by simp_all
  obtain text1 d1 where t1: "fst (inner_text api ?X (browser t)) = Inr text1"
    and f1: "py_float (strtod pf) text1 = Inr d1"
    and h1: "heap u = (heap t)[?r := (heap t ! ?r)\<lparr>seo_quality_support_average := d1\<rparr>]"
    and pu: "product u = Some ?r"
    using assign_average_returns [OF q pt] by auto
  obtain text2 d2 where t2: "fst (inner_text api ?X (browser u)) = Inr text2"
    and f2: "py_float (strtod pf) text2 = Inr d2"
    and h2: "heap s' = (heap u)[?r := (heap u ! ?r)\<lparr>seo_ease_setup_average := d2\<rparr>]"
    and ps: "product s' = Some ?r"
    using assign_average_returns [OF st pu] by auto
  have "text1 = text2"
    using t1 t2 same [of ?X "browser t" "browser u"] by simp
  then have d: "d1 = d2"
    using f1 f2 by simp
  have cell: "heap s' ! ?r
      = (heap t ! ?r)\<lparr>seo_quality_support_average := d1, seo_ease_setup_average := d2\<rparr>"
    using len by (simp add: h1 h2)
  show ?thesis
    using X ps by (simp add: cell d float_eq_def)
qed

theorem shared_selector_gives_same_value_witness:
  "try_body table_platform conductor_browser conductor_url (initial conductor_browser)
     = (None, snd (try_body table_platform conductor_browser conductor_url
                     (initial conductor_browser)))
   \<and> (\<forall>x b b'. fst (inner_text conductor_browser x b) = fst (inner_text conductor_browser x b'))
   \<and> seo_quality_support_average
        (heap (snd (try_body table_platform conductor_browser conductor_url
                      (initial conductor_browser))) ! 0)
     = seo_ease_setup_average
        (heap (snd (try_body table_platform conductor_browser conductor_url
                      (initial conductor_browser))) ! 0)
   \<and> float_eq
        (seo_quality_support_average
          (heap (snd (try_body table_platform conductor_browser conductor_url
                        (initial conductor_browser))) ! 0))
        (seo_ease_setup_average
          (heap (snd (try_body table_platform conductor_browser conductor_url
                        (initial conductor_browser))) ! 0))"
proof -
  let ?s' = "snd (try_body table_platform conductor_browser conductor_url
                    (initial conductor_browser))"
  have "fst (try_body table_platform conductor_browser conductor_url
               (initial conductor_browser)) = None"
    by code_simp
  then have run: "try_body table_platform conductor_browser conductor_url
                    (initial conductor_browser) = (None, ?s')"
    by (simp add: prod_eq_iff)
  have same: "\<And>x b b'. fst (inner_text conductor_browser x b)
                          = fst (inner_text conductor_browser x b')"
    by (simp add: conductor_browser_def static_page_def)
  have len: "length (heap (initial conductor_browser)) = 0"
    by (simp add: initial_def)
  have v: "seo_quality_support_average (heap ?s' ! 0) = 0x4022333333333333"
    by code_simp
  have n: "\<not> is_nan (0x4022333333333333 :: double)"
    by (simp add: is_nan_def)
  note inst = shared_selector_gives_same_value [OF run same, unfolded len]
  have eq: "seo_quality_support_average (heap ?s' ! 0) = seo_ease_setup_average (heap ?s' ! 0)"
    using inst by blast
  have "float_eq (seo_quality_support_average (heap ?s' ! 0))
                 (seo_ease_setup_average (heap ?s' ! 0))
          = (\<not> is_nan (seo_quality_support_average (heap ?s' ! 0)))"
    using inst by blast
  moreover have "\<not> is_nan (seo_quality_support_average (heap ?s' ! 0))"
    unfolding v by (rule n)
  ultimately have fe: "float_eq (seo_quality_support_average (heap ?s' ! 0))
                                (seo_ease_setup_average (heap ?s' ! 0))"
    by blast
  show ?thesis
    using run same eq fe by blast
qed

section \<open>The frame of a collection\<close>

lemma keys_asdict: "map fst (asdict p) = field_names"
  by (simp add: asdict_def field_names_def)

lemma foldl_known_keys:
  "set ks \<subseteq> set acc \<Longrightarrow>
   foldl (\<lambda>acc k. if k \<in> set acc then acc else acc @ [k]) acc ks = acc"
  by (induction ks arbitrary: acc) auto

lemma keys_in_order_asdict:
  assumes "ps \<noteq> []"
  shows "keys_in_order (map asdict ps) = field_names"
proof -
  obtain p rest where ps: "ps = p # rest" using assms by (cases ps) auto
  let ?step = "\<lambda>acc k. if k \<in> set acc then acc else acc @ [k]"
  have first: "foldl ?step [] field_names = field_names"
    by (simp add: field_names_def)
  have "set (concat (map (map fst) (map asdict rest))) \<subseteq> set field_names"
    by (auto simp: keys_asdict comp_def)
  then have "foldl ?step field_names (concat (map (map fst) (map asdict rest))) = field_names"
    by (rule foldl_known_keys)
  then show ?thesis
    by (simp add: keys_in_order_def ps keys_asdict first)
qed

lemma lookup_asdict:
  "lookup (asdict p) ''title'' = opt_val PyStr (title p)"
  "lookup (asdict p) ''reviews'' = opt_val PyInt (reviews p)"
  "lookup (asdict p) ''seo_ease_use_average'' = PyFloat (seo_ease_use_average p)"
  "lookup (asdict p) ''seo_quality_support_average'' = PyFloat (seo_quality_support_average p)"
  "lookup (asdict p) ''seo_ease_setup_average'' = PyFloat (seo_ease_setup_average p)"
  by (simp_all add: lookup_def asdict_def)

lemma title_column:
  "infer_column conv (map (\<lambda>p. opt_val PyStr (title p)) ps) = map (\<lambda>p. title_cell (title p)) ps"
proof -
  have cells: "\<And>p. object_cell (opt_val PyStr (title p)) = title_cell (title p)"
    by (simp add: opt_val_def title_cell_def split: option.splits)
  have "list_ex is_str (map (\<lambda>p. opt_val PyStr (title p)) ps)
        \<or> list_all (\<lambda>v. v = PyNone) (map (\<lambda>p. opt_val PyStr (title p)) ps)"
    by (induction ps) (auto simp: opt_val_def split: option.splits)
  then show ?thesis
    by (auto simp: infer_column_def cells)
qed

lemma float_column:
  "infer_column conv (map (\<lambda>p. PyFloat (f p)) ps) = map (\<lambda>p. FloatCell (f p)) ps"
proof (cases ps)
  case Nil
  then show ?thesis by (simp add: infer_column_def)
next
  case (Cons p rest)
  have "\<not> list_ex is_str (map (\<lambda>p. PyFloat (f p)) ps)"
    by (simp add: list_ex_iff)
  then show ?thesis
    by (simp add: infer_column_def Cons list_ex_iff)
qed

lemma reviews_column:
  "infer_column (int_to_double pf) (map (\<lambda>p. opt_val PyInt (reviews p)) ps)
     = map (\<lambda>p. reviews_cell pf (mixed_reviews ps) (reviews p)) ps"
proof -
  let ?vs = "map (\<lambda>p. opt_val PyInt (reviews p)) ps"
  have nostr: "\<not> list_ex is_str ?vs"
    by (auto simp: list_ex_iff opt_val_def split: option.splits)
  have allnone: "list_all (\<lambda>v. v = PyNone) ?vs \<longleftrightarrow> \<not> list_ex (\<lambda>p. reviews p \<noteq> None) ps"
    by (auto simp: list_all_iff list_ex_iff opt_val_def split: option.splits)
  have allint: "list_all is_int ?vs \<longleftrightarrow> \<not> list_ex (\<lambda>p. reviews p = None) ps"
    by (auto simp: list_all_iff list_ex_iff opt_val_def split: option.splits)
  show ?thesis
  proof (cases "list_ex (\<lambda>p. reviews p \<noteq> None) ps")
    case False
    then have "\<And>p. p \<in> set ps \<Longrightarrow> reviews p = None"
      by (auto simp: list_ex_iff)
    then show ?thesis
      using False allnone
      by (auto simp: infer_column_def mixed_reviews_def reviews_cell_def opt_val_def)
  next
    case some: True
    show ?thesis
    proof (cases "list_ex (\<lambda>p. reviews p = None) ps")
      case False
      then have "\<And>p. p \<in> set ps \<Longrightarrow> reviews p \<noteq> None"
        by (auto simp: list_ex_iff)
      then show ?thesis
        using False some allnone allint nostr
        by (auto simp: infer_column_def mixed_reviews_def reviews_cell_def opt_val_def
            split: option.splits)
    next
      case True
      then show ?thesis
        using some allnone allint nostr
        by (auto simp: infer_column_def mixed_reviews_def reviews_cell_def opt_val_def
            split: option.splits)
    qed
  qed
qed

lemma dataframe_columns:
  "columns (dataframe pf ps) = (if ps = [] then [] else field_names)"
  by (simp add: dataframe_def json_normalize_def keys_in_order_asdict keys_in_order_Nil)

lemma dataframe_nrows: "nrows (dataframe pf ps) = length ps"
  by (simp add: dataframe_def json_normalize_def)

lemma dataframe_data:
  assumes "ps \<noteq> []"
  shows "data (dataframe pf ps) =
           [map (\<lambda>p. title_cell (title p)) ps,
            map (\<lambda>p. reviews_cell pf (mixed_reviews ps) (reviews p)) ps,
            map (\<lambda>p. FloatCell (seo_ease_use_average p)) ps,
            map (\<lambda>p. FloatCell (seo_quality_support_average p)) ps,
            map (\<lambda>p. FloatCell (seo_ease_setup_average p)) ps]"
  using assms
  by (simp add: dataframe_def json_normalize_def keys_in_order_asdict field_names_def
      comp_def lookup_asdict title_column float_column reviews_column)

lemma rows_dataframe: "rows (dataframe pf ps) = map (record_cells pf ps) ps"
proof (cases "ps = []")
  case True
  then show ?thesis by (simp add: rows_def dataframe_Nil)
next
  case False
  show ?thesis
    by (rule nth_equalityI)
      (simp_all add: rows_def dataframe_nrows dataframe_data [OF False] record_cells_def)
qed

lemma length_record_cells: "length (record_cells pf ps p) = 5"
  by (simp add: record_cells_def)

lemma to_records_dataframe:
  "to_records (dataframe pf ps) = map (\<lambda>p. zip field_names (record_cells pf ps p)) ps"
  by (cases "ps = []") (simp_all add: to_records_def rows_dataframe dataframe_columns comp_def)

section \<open>Export to CSV, line by line\<close>

lemma single_line_join:
  "single_line sep \<Longrightarrow> list_all single_line xs \<Longrightarrow> single_line (join sep xs)"
  by (induction sep xs rule: join.induct) (simp_all add: single_line_def)

lemma single_line_csv_field: "single_line f \<Longrightarrow> single_line (csv_field terminator f)"
  by (auto simp: csv_field_def single_line_def list_all_iff)

lemma digit_char_plain: "digit_char n \<in> set ''0123456789''"
  unfolding digit_char_def by (rule nth_mem) simp

lemma single_line_str_nat: "single_line (str_nat n)"
proof (induction n rule: str_nat.induct)
  case (1 n)
  have d: "single_line [digit_char n]"
    using digit_char_plain [of n] by (auto simp: single_line_def)
  show ?case
  proof (cases "n < 10")
    case True
    then show ?thesis using d by (subst str_nat.simps) simp
  next
    case False
    then have "single_line (str_nat (n div 10))" using "1.IH" by simp
    then show ?thesis
      using d False by (subst str_nat.simps) (simp add: single_line_def)
  qed
qed

lemma single_line_str_int: "single_line (str_int i)"
  using single_line_str_nat by (simp add: str_int_def single_line_def)

lemma single_line_record_cells:
  assumes "single_line_title p" and "\<And>d. single_line (float_str pf d)"
  shows "list_all (\<lambda>c. single_line (csv_cell pf c)) (record_cells pf ps p)"
proof -
  have e: "single_line []" by (simp add: single_line_def)
  have t: "single_line (csv_cell pf (title_cell (title p)))"
    using assms(1) e by (simp add: single_line_title_def title_cell_def split: option.splits)
  have f: "\<And>d. single_line (csv_cell pf (FloatCell d))"
    using assms(2) e by simp
  have r: "single_line (csv_cell pf (reviews_cell pf (mixed_reviews ps) (reviews p)))"
    using f e single_line_str_int by (simp add: reviews_cell_def split: option.splits)
  show ?thesis
    using t r f by (simp add: record_cells_def)
qed

lemma special_of_line_ending:
  assumes "set terminator \<subseteq> {CHR 0x0A, CHR 0x0D}"
  shows "special terminator c = (c = CHR '','' \<or> c = CHR 0x22 \<or> c = CHR 0x0A \<or> c = CHR 0x0D)"
  using assms by (auto simp: special_def)

lemma csv_header:
  assumes "set terminator \<subseteq> {CHR 0x0A, CHR 0x0D}"
  shows "csv_line terminator field_names
    = ''title,reviews,seo_ease_use_average,seo_quality_support_average,seo_ease_setup_average''"
  by (simp add: csv_line_def field_names_def csv_field_def special_of_line_ending [OF assms])

lemma map_zip_upt:
  "length xs = n \<Longrightarrow> map (\<lambda>(i, r). g r) (zip [0..<n] xs) = map g xs"
  by (rule nth_equalityI) simp_all

lemma csv_lines_dataframe:
  assumes "ps \<noteq> []"
  shows "csv_lines pf False (dataframe pf ps)
    = csv_line (linesep pf) field_names #
      map (\<lambda>p. join '','' (map (\<lambda>c. csv_field (linesep pf) (csv_cell pf c))
                               (record_cells pf ps p))) ps"
proof -
  have body: "\<And>p. csv_line (linesep pf) (map (csv_cell pf) (record_cells pf ps p))
      = join '','' (map (\<lambda>c. csv_field (linesep pf) (csv_cell pf c)) (record_cells pf ps p))"
    by (simp add: csv_line_def record_cells_def)
  have z: "map (\<lambda>(i, r). csv_line (linesep pf) ([] @ map (csv_cell pf) r))
             (zip [0..<length ps] (map (record_cells pf ps) ps))
        = map (\<lambda>r. csv_line (linesep pf) ([] @ map (csv_cell pf) r))
            (map (record_cells pf ps) ps)"
    by (rule map_zip_upt) simp
  have "csv_lines pf False (dataframe pf ps)
      = csv_line (linesep pf) (columns (dataframe pf ps)) #
        map (\<lambda>(i, r). csv_line (linesep pf) ([] @ map (csv_cell pf) r))
          (zip [0..<length ps] (map (record_cells pf ps) ps))"
    by (simp add: csv_lines_def dataframe_nrows rows_dataframe)
  then show ?thesis
    unfolding z using assms by (simp add: dataframe_columns body comp_def)
qed

text \<open>
  C5, as the specification states it, fails in two ways. For no record at all the frame
  has no column, and the one line of the file is empty, not the five field names. And a
  record whose title holds a line feed is written inside quotes over two lines: with the
  header, the file of that one record has three line feeds.
\<close>

theorem empty_frame_has_no_columns:
  "columns (dataframe table_platform []) = []
   \<and> csv_lines table_platform False (dataframe table_platform []) = [[]]
   \<and> hd (csv_lines table_platform False (dataframe table_platform []))
     \<noteq> ''title,reviews,seo_ease_use_average,seo_quality_support_average,seo_ease_setup_average''
   \<and> length (filter (\<lambda>c. c = CHR 0x0A)
        (to_csv table_platform False
           (dataframe table_platform
              [conductor_record\<lparr>title := Some (''Conductor'' @ [CHR 0x0A] @ ''SEO'')\<rparr>])))
     = 3"
proof -
  have none: "columns (dataframe table_platform []) = []
     \<and> csv_lines table_platform False (dataframe table_platform []) = [[]]
     \<and> hd (csv_lines table_platform False (dataframe table_platform []))
       \<noteq> ''title,reviews,seo_ease_use_average,seo_quality_support_average,seo_ease_setup_average''"
    by (simp add: dataframe_Nil csv_lines_def csv_line_def rows_def)
  have broken: "length (filter (\<lambda>c. c = CHR 0x0A)
        (to_csv table_platform False
           (dataframe table_platform
              [conductor_record\<lparr>title := Some (''Conductor'' @ [CHR 0x0A] @ ''SEO'')\<rparr>])))
     = 3"
    by code_simp
  show ?thesis
    using none broken by blast
qed

text \<open>
  C5, amended: for one record or more, with titles free of line feed and carriage
  return, on a platform whose float texts are free of them and whose line terminator is
  made of them, the file is the lines of \<open>csv_lines\<close>, each followed by the
  terminator; there are as many lines as records and one more; the first is the five
  field names in declared order; each of the others is the five cells of its record,
  title first, with no row number in front; and no line holds a line break.
\<close>

theorem csv_has_header_and_one_line_per_record:
  assumes "ps \<noteq> []"
    and "list_all single_line_title ps"
    and "\<And>d. single_line (float_str pf d)"
    and "set (linesep pf) \<subseteq> {CHR 0x0A, CHR 0x0D}"
  shows "to_csv pf False (dataframe pf ps)
           = concat (map (\<lambda>l. l @ linesep pf) (csv_lines pf False (dataframe pf ps)))
       \<and> csv_lines pf False (dataframe pf ps)
           = ''title,reviews,seo_ease_use_average,seo_quality_support_average,seo_ease_setup_average'' #
             map (\<lambda>p. join '','' (map (\<lambda>c. csv_field (linesep pf) (csv_cell pf c))
                                      (record_cells pf ps p))) ps
       \<and> length (csv_lines pf False (dataframe pf ps)) = length ps + 1
       \<and> list_all single_line (csv_lines pf False (dataframe pf ps))"
proof -
  let ?header = "''title,reviews,seo_ease_use_average,seo_quality_support_average,seo_ease_setup_average''"
  let ?line = "\<lambda>p. join '','' (map (\<lambda>c. csv_field (linesep pf) (csv_cell pf c))
                                      (record_cells pf ps p))"
  have lines: "csv_lines pf False (dataframe pf ps) = ?header # map ?line ps"
    by (simp add: csv_lines_dataframe [OF assms(1)] csv_header [OF assms(4)])
  have h: "single_line ?header"
    by (simp add: single_line_def)
  have "\<And>p. p \<in> set ps \<Longrightarrow> single_line (?line p)"
  proof -
    fix p assume "p \<in> set ps"
    then have "single_line_title p"
      using assms(2) by (simp add: list_all_iff)
    then have "list_all (\<lambda>c. single_line (csv_cell pf c)) (record_cells pf ps p)"
      using assms(3) by (rule single_line_record_cells)
    then have "list_all single_line
                 (map (\<lambda>c. csv_field (linesep pf) (csv_cell pf c)) (record_cells pf ps p))"
      by (simp add: list_all_iff single_line_csv_field)
    then show "single_line (?line p)"
      by (rule single_line_join [rotated]) (simp add: single_line_def)
  qed
  then have b: "list_all single_line (map ?line ps)"
    by (simp add: list_all_iff)
  show ?thesis
    using h b by (simp add: lines to_csv_def)
qed

theorem csv_has_header_and_one_line_per_record_witness:
  "[conductor_record, new_GProduct] \<noteq> []
   \<and> list_all single_line_title [conductor_record, new_GProduct]
   \<and> (\<forall>d. single_line (float_str table_platform d))
   \<and> csv_lines table_platform False (dataframe table_platform [conductor_record, new_GProduct])
     = [''title,reviews,seo_ease_use_average,seo_quality_support_average,seo_ease_setup_average'',
        ''Conductor,234.0,8.5,9.1,9.1'',
        '',,0.0,0.0,0.0'']
   \<and> length (csv_lines table_platform False
               (dataframe table_platform [conductor_record, new_GProduct])) = 3"
proof -
  let ?ps = "[conductor_record, new_GProduct]"
  have h1: "?ps \<noteq> []" by simp
  have h2: "list_all single_line_title ?ps" by code_simp
  have h3: "\<And>d. single_line (float_str table_platform d)"
    by (simp add: table_platform_def table_float_def single_line_def)
  have h4: "set (linesep table_platform) \<subseteq> {CHR 0x0A, CHR 0x0D}"
    by (simp add: table_platform_def)
  have body: "map (\<lambda>p. join '','' (map (\<lambda>c. csv_field (linesep table_platform)
                                               (csv_cell table_platform c))
                                      (record_cells table_platform ?ps p))) ?ps
      = [''Conductor,234.0,8.5,9.1,9.1'', '',,0.0,0.0,0.0'']"
    by code_simp
  note inst = csv_has_header_and_one_line_per_record [OF h1 h2 h3 h4]
  have lines: "csv_lines table_platform False (dataframe table_platform ?ps)
     = [''title,reviews,seo_ease_use_average,seo_quality_support_average,seo_ease_setup_average'',
        ''Conductor,234.0,8.5,9.1,9.1'',
        '',,0.0,0.0,0.0'']"
    using inst unfolding body by blast
  have len: "length (csv_lines table_platform False (dataframe table_platform ?ps)) = 3"
    using inst by simp
  show ?thesis
    using h1 h2 h3 lines len by blast
qed

section \<open>Export to JSON, read back\<close>

lemma digit_is_number_char: "is_digit c \<Longrightarrow> number_char c"
  by (simp add: number_char_def)

lemma digits_number_chars: "list_all is_digit t \<Longrightarrow> list_all number_char t"
  by (simp add: list_all_iff digit_is_number_char)

lemma list_all_take_drop:
  "list_all Q (takeWhile P xs) \<Longrightarrow> list_all Q (dropWhile P xs) \<Longrightarrow> list_all Q xs"
  by (metis list_all_append takeWhile_dropWhile_id)

lemma strip_sign_number_chars:
  assumes "digits1 (strip_sign r)"
  shows "list_all number_char r"
proof (cases r)
  case Nil
  then show ?thesis by simp
next
  case (Cons c r')
  show ?thesis
  proof (cases "c = CHR ''+'' \<or> c = CHR ''-''")
    case True
    then have "list_all is_digit r'"
      using assms Cons by (auto simp: strip_sign_def digits1_def)
    then show ?thesis
      using True Cons digits_number_chars [of r'] by (auto simp: number_char_def)
  next
    case False
    then have "list_all is_digit r"
      using assms Cons by (auto simp: strip_sign_def digits1_def)
    then show ?thesis by (rule digits_number_chars)
  qed
qed

lemma exponent_number_chars:
  assumes "json_exponent t"
  shows "list_all number_char t"
proof (cases t)
  case Nil
  then show ?thesis by simp
next
  case (Cons c r)
  then have c: "c = CHR ''e'' \<or> c = CHR ''E''" and d: "digits1 (strip_sign r)"
    using assms by (simp_all add: json_exponent_def)
  show ?thesis
    using c strip_sign_number_chars [OF d] Cons by (auto simp: number_char_def)
qed

lemma fraction_number_chars:
  assumes "list_all number_char (snd (json_fraction t))"
  shows "list_all number_char t"
proof (cases t)
  case Nil
  then show ?thesis by simp
next
  case (Cons c r)
  show ?thesis
  proof (cases "c = CHR ''.''")
    case True
    then have rest: "list_all number_char (dropWhile is_digit r)"
      using assms Cons by (simp add: json_fraction_def)
    have "list_all number_char (takeWhile is_digit r)"
      by (rule digits_number_chars) (auto simp: list_all_iff dest: set_takeWhileD)
    then have "list_all number_char r"
      using rest by (rule list_all_take_drop)
    then show ?thesis
      using True Cons by (simp add: number_char_def)
  next
    case False
    then show ?thesis
      using assms Cons by (simp add: json_fraction_def)
  qed
qed

lemma json_number_chars:
  assumes "json_number t"
  shows "t \<noteq> []" and "list_all number_char t"
proof -
  let ?u = "strip_minus t"
  have int: "json_int (takeWhile is_digit ?u)"
    and ex: "json_exponent (snd (json_fraction (dropWhile is_digit ?u)))"
    using assms by (simp_all add: json_number_def)
  have "takeWhile is_digit ?u \<noteq> []"
    using int by (simp add: json_int_def digits1_def)
  then have u: "?u \<noteq> []" by auto
  then show "t \<noteq> []" by (auto simp: strip_minus_def)
  have "list_all number_char (dropWhile is_digit ?u)"
    using exponent_number_chars [OF ex] by (rule fraction_number_chars)
  moreover have "list_all number_char (takeWhile is_digit ?u)"
    by (rule digits_number_chars) (auto simp: list_all_iff dest: set_takeWhileD)
  ultimately have "list_all number_char ?u"
    by (rule list_all_take_drop [rotated])
  then show "list_all number_char t"
    by (cases t) (auto simp: strip_minus_def number_char_def split: if_splits)
qed

lemma number_char_plain:
  assumes "number_char c"
  shows "c \<noteq> CHR 0x22" "c \<noteq> CHR ''n''" "c \<noteq> CHR '',''" "c \<noteq> CHR ''}''"
  using assms by (auto simp: number_char_def is_digit_def)

lemma parse_scalar_number:
  assumes "json_number t" and "\<not> number_char d"
  shows "parse_scalar (t @ d # r) = Some (JNumber t, d # r)"
proof -
  obtain c t' where t: "t = c # t'"
    using json_number_chars(1) [OF assms(1)] by (cases t) auto
  have all: "list_all number_char t"
    by (rule json_number_chars(2) [OF assms(1)])
  then have c: "number_char c" using t by simp
  have ps: "parse_string (t @ d # r) = None"
    using number_char_plain(1) [OF c] by (simp add: parse_string_def t)
  have nl: "take 4 (t @ d # r) \<noteq> ''null''"
    using number_char_plain(2) [OF c] by (simp add: t)
  have tw: "takeWhile number_char (t @ d # r) = t"
    using all assms(2) by (simp add: takeWhile_append2 list_all_iff)
  have dw: "dropWhile number_char (t @ d # r) = d # r"
    using all assms(2) by (simp add: dropWhile_append2 list_all_iff)
  show ?thesis
    unfolding parse_scalar_def ps using nl assms(1) by (simp add: tw dw)
qed

lemma parse_scalar_null: "parse_scalar (''null'' @ r) = Some (JNull, r)"
  by (simp add: parse_scalar_def parse_string_def)

lemma parse_scalar_string:
  "parse_string (e @ r) = Some (s, r) \<Longrightarrow> parse_scalar (e @ r) = Some (JString s, r)"
  by (simp add: parse_scalar_def)

lemma str_nat_digits: "str_nat n \<noteq> [] \<and> list_all is_digit (str_nat n)"
proof (induction n rule: str_nat.induct)
  case (1 n)
  have d: "is_digit (digit_char n)"
    using digit_char_plain [of n] by (auto simp: is_digit_def)
  show ?case
  proof (cases "n < 10")
    case True
    then show ?thesis using d by (subst (1 2) str_nat.simps) simp
  next
    case False
    then show ?thesis using d "1.IH" by (subst (1 2) str_nat.simps) simp
  qed
qed

lemma str_nat_leading:
  "0 < n \<Longrightarrow> hd (str_nat n) \<noteq> CHR ''0''"
proof (induction n rule: str_nat.induct)
  case (1 n)
  show ?case
  proof (cases "n < 10")
    case True
    then have "n \<in> {1, 2, 3, 4, 5, 6, 7, 8, 9}" using "1.prems" by auto
    then show ?thesis
      using True by (subst str_nat.simps) (auto simp: digit_char_def)
  next
    case False
    then have "hd (str_nat (n div 10)) \<noteq> CHR ''0''" using "1.IH" by simp
    then show ?thesis
      using False str_nat_digits [of "n div 10"] by (subst str_nat.simps) simp
  qed
qed

lemma json_int_str_nat: "json_int (str_nat n)"
proof (cases "n = 0")
  case True
  have "str_nat 0 = ''0''"
    by (subst str_nat.simps) (simp add: digit_char_def)
  then show ?thesis
    using True by (simp add: json_int_def digits1_def is_digit_def)
next
  case False
  then show ?thesis
    using str_nat_digits [of n] str_nat_leading [of n] by (simp add: json_int_def digits1_def)
qed

lemma json_number_digits:
  assumes "json_int t"
  shows "json_number t" and "json_number (CHR ''-'' # t)"
proof -
  have d: "list_all is_digit t" and ne: "t \<noteq> []"
    using assms by (simp_all add: json_int_def digits1_def)
  have tw: "takeWhile is_digit t = t" and dw: "dropWhile is_digit t = []"
    using d by (simp_all add: list_all_iff)
  have "hd t \<noteq> CHR ''-''"
    using d ne by (cases t) (auto simp: is_digit_def)
  then have sm: "strip_minus t = t"
    using ne by (cases t) (simp_all add: strip_minus_def)
  show "json_number t"
    using assms by (simp add: json_number_def sm tw dw json_fraction_def json_exponent_def)
  show "json_number (CHR ''-'' # t)"
    using assms by (simp add: json_number_def strip_minus_def tw dw json_fraction_def json_exponent_def)
qed

lemma json_number_str_int: "json_number (str_int i)"
  by (simp add: str_int_def json_number_digits json_int_str_nat)


lemma parse_scalar_cell:
  assumes str: "\<And>s r. c = StrCell s \<Longrightarrow> parse_string (json_string pf s @ r) = Some (s, r)"
    and fl: "\<And>d. json_float pf d = ''null'' \<or> json_number (json_float pf d)"
    and d: "d = CHR ''}'' \<or> d = CHR '',''"
  shows "parse_scalar (json_cell pf c @ d # r) = Some (json_value pf c, d # r)"
proof -
  have nd: "\<not> number_char d"
    using d by (auto simp: number_char_def is_digit_def)
  show ?thesis
  proof (cases c)
    case NoneCell
    then show ?thesis using parse_scalar_null [of "d # r"] by simp
  next
    case (StrCell s)
    then show ?thesis using parse_scalar_string [OF str [OF StrCell]] by simp
  next
    case (IntCell n)
    then show ?thesis
      using parse_scalar_number [OF json_number_str_int nd] by simp
  next
    case (FloatCell x)
    show ?thesis
    proof (cases "json_float pf x = ''null''")
      case True
      then show ?thesis using FloatCell parse_scalar_null [of "d # r"] by simp
    next
      case False
      then have "json_number (json_float pf x)" using fl [of x] by simp
      then show ?thesis
        using FloatCell False parse_scalar_number [OF _ nd] by simp
    qed
  qed
qed

lemma parse_members_step:
  assumes key: "\<And>r. parse_string (json_string pf k @ r) = Some (k, r)"
    and val: "parse_scalar (json_cell pf c @ d # x) = Some (v, d # x)"
  shows "parse_members (Suc m) (json_member pf (k, c) @ d # x) =
           (if d = CHR ''}'' then Some ([(k, v)], x)
            else if d = CHR '','' then
              map_option (\<lambda>(kvs, rest). ((k, v) # kvs, rest)) (parse_members m x)
            else None)"
proof -
  have "json_member pf (k, c) @ d # x
          = json_string pf k @ (CHR '':'' # json_cell pf c @ d # x)"
    by (simp add: json_member_def)
  then show ?thesis
    using key [of "CHR '':'' # json_cell pf c @ d # x"] val by simp
qed

lemma parse_members_join:
  assumes keys: "\<And>k r. k \<in> fst ` set kvs \<Longrightarrow> parse_string (json_string pf k @ r) = Some (k, r)"
    and strs: "\<And>s r. StrCell s \<in> snd ` set kvs \<Longrightarrow>
                 parse_string (json_string pf s @ r) = Some (s, r)"
    and fl: "\<And>d. json_float pf d = ''null'' \<or> json_number (json_float pf d)"
    and ne: "kvs \<noteq> []"
    and fuel: "length kvs \<le> n"
  shows "parse_members n (join '','' (map (json_member pf) kvs) @ CHR ''}'' # r)
           = Some (map (\<lambda>kv. (fst kv, json_value pf (snd kv))) kvs, r)"
  using keys strs ne fuel
proof (induction kvs arbitrary: n)
  case Nil
  then show ?case by simp
next
  case (Cons kv rest)
  obtain k c where kv: "kv = (k, c)" by (cases kv)
  obtain m where n: "n = Suc m" using Cons.prems(4) by (cases n) auto
  have key: "\<And>r. parse_string (json_string pf k @ r) = Some (k, r)"
    using Cons.prems(1) [of k] kv by simp
  have str: "\<And>s r. c = StrCell s \<Longrightarrow> parse_string (json_string pf s @ r) = Some (s, r)"
    using Cons.prems(2) kv by force
  show ?case
  proof (cases rest)
    case Nil
    have val: "parse_scalar (json_cell pf c @ CHR ''}'' # r)
                 = Some (json_value pf c, CHR ''}'' # r)"
      by (rule parse_scalar_cell [OF str fl]) simp_all
    show ?thesis
      using parse_members_step [OF key val, of m] by (simp add: Nil kv n)
  next
    case (Cons kv' rest')
    let ?x = "join '','' (map (json_member pf) rest) @ CHR ''}'' # r"
    have val: "parse_scalar (json_cell pf c @ CHR '','' # ?x)
                 = Some (json_value pf c, CHR '','' # ?x)"
      by (rule parse_scalar_cell [OF str fl]) simp_all
    have ih: "parse_members m ?x = Some (map (\<lambda>kv. (fst kv, json_value pf (snd kv))) rest, r)"
    proof (rule Cons.IH)
      show "\<And>k r. k \<in> fst ` set rest \<Longrightarrow> parse_string (json_string pf k @ r) = Some (k, r)"
        using Cons.prems(1) by simp
      show "\<And>s r. StrCell s \<in> snd ` set rest \<Longrightarrow>
              parse_string (json_string pf s @ r) = Some (s, r)"
        using Cons.prems(2) by simp
      show "rest \<noteq> []" using Cons by simp
      show "length rest \<le> m" using Cons.prems(4) n by simp
    qed
    have "join '','' (map (json_member pf) (kv # rest)) @ CHR ''}'' # r
            = json_member pf (k, c) @ CHR '','' # ?x"
      by (simp add: Cons kv)
    then show ?thesis
      using parse_members_step [OF key val, of m] ih by (simp add: kv n)
  qed
qed

lemma parse_string_starts_with_quote:
  "parse_string t = Some x \<Longrightarrow> \<exists>cs. t = CHR 0x22 # cs"
  by (cases t) (auto simp: parse_string_def split: if_splits)

lemma length_join:
  "list_all (\<lambda>x. x \<noteq> []) xs \<Longrightarrow> length xs \<le> length (join sep xs)"
proof (induction sep xs rule: join.induct)
  case (1 sep)
  then show ?case by simp
next
  case (2 sep x)
  then show ?case by (cases x) simp_all
next
  case (3 sep x y ys)
  then show ?case by (cases x) simp_all
qed

lemma json_member_not_Nil: "json_member pf kv \<noteq> []"
  by (simp add: json_member_def)

lemma length_json_object: "length kvs \<le> length (json_object pf kvs)"
proof -
  have "length (map (json_member pf) kvs) \<le> length (join '','' (map (json_member pf) kvs))"
    by (rule length_join) (simp add: list_all_iff json_member_not_Nil)
  then show ?thesis by (simp add: json_object_def)
qed

lemma parse_object_text:
  assumes keys: "\<And>k r. k \<in> fst ` set kvs \<Longrightarrow> parse_string (json_string pf k @ r) = Some (k, r)"
    and strs: "\<And>s r. StrCell s \<in> snd ` set kvs \<Longrightarrow>
                 parse_string (json_string pf s @ r) = Some (s, r)"
    and fl: "\<And>d. json_float pf d = ''null'' \<or> json_number (json_float pf d)"
    and ne: "kvs \<noteq> []"
    and fuel: "length kvs \<le> n"
  shows "parse_object n (json_object pf kvs @ r)
           = Some (map (\<lambda>kv. (fst kv, json_value pf (snd kv))) kvs, r)"
proof -
  let ?body = "join '','' (map (json_member pf) kvs) @ CHR ''}'' # r"
  have members: "parse_members n ?body
                   = Some (map (\<lambda>kv. (fst kv, json_value pf (snd kv))) kvs, r)"
    by (rule parse_members_join [OF keys strs fl ne fuel])
  obtain m where n: "n = Suc m" using ne fuel by (cases n) auto
  have "parse_string ?body \<noteq> None"
    using members by (auto simp: n split: option.splits)
  then obtain cs where body: "?body = CHR 0x22 # cs"
    using parse_string_starts_with_quote by blast
  have "json_object pf kvs @ r = CHR ''{'' # ?body"
    by (simp add: json_object_def)
  then have "parse_object n (json_object pf kvs @ r) = parse_members n ?body"
    unfolding parse_object_def body by simp
  then show ?thesis using members by simp
qed

lemma json_object_not_Nil: "json_object pf kvs \<noteq> []"
  by (simp add: json_object_def)

lemma parse_objects_join:
  assumes keys: "\<And>kvs k r. kvs \<in> set objs \<Longrightarrow> k \<in> fst ` set kvs \<Longrightarrow>
                   parse_string (json_string pf k @ r) = Some (k, r)"
    and strs: "\<And>kvs s r. kvs \<in> set objs \<Longrightarrow> StrCell s \<in> snd ` set kvs \<Longrightarrow>
                 parse_string (json_string pf s @ r) = Some (s, r)"
    and fl: "\<And>d. json_float pf d = ''null'' \<or> json_number (json_float pf d)"
    and nes: "\<And>kvs. kvs \<in> set objs \<Longrightarrow> kvs \<noteq> []"
    and ne: "objs \<noteq> []"
    and fuel: "length objs \<le> n"
  shows "parse_objects n (join '','' (map (json_object pf) objs) @ CHR '']'' # r)
           = Some (map (map (\<lambda>kv. (fst kv, json_value pf (snd kv)))) objs, r)"
  using keys strs nes ne fuel
proof (induction objs arbitrary: n)
  case Nil
  then show ?case by simp
next
  case (Cons kvs rest)
  obtain m where n: "n = Suc m" using Cons.prems(5) by (cases n) auto
  have obj: "\<And>x. parse_object (length (json_object pf kvs @ x)) (json_object pf kvs @ x)
                 = Some (map (\<lambda>kv. (fst kv, json_value pf (snd kv))) kvs, x)"
  proof -
    fix x
    show "parse_object (length (json_object pf kvs @ x)) (json_object pf kvs @ x)
                 = Some (map (\<lambda>kv. (fst kv, json_value pf (snd kv))) kvs, x)"
    proof (rule parse_object_text [OF _ _ fl])
      show "\<And>k r. k \<in> fst ` set kvs \<Longrightarrow> parse_string (json_string pf k @ r) = Some (k, r)"
        using Cons.prems(1) [of kvs] by simp
      show "\<And>s r. StrCell s \<in> snd ` set kvs \<Longrightarrow>
              parse_string (json_string pf s @ r) = Some (s, r)"
        using Cons.prems(2) [of kvs] by simp
      show "kvs \<noteq> []" using Cons.prems(3) by simp
      show "length kvs \<le> length (json_object pf kvs @ x)"
        using length_json_object [of kvs pf] by simp
    qed
  qed
  show ?case
  proof (cases rest)
    case Nil
    show ?thesis
      using obj [of "CHR '']'' # r"] by (simp add: Nil n)
  next
    case (Cons kvs' rest')
    let ?x = "join '','' (map (json_object pf) rest) @ CHR '']'' # r"
    have ih: "parse_objects m ?x
                = Some (map (map (\<lambda>kv. (fst kv, json_value pf (snd kv)))) rest, r)"
    proof (rule Cons.IH)
      show "\<And>kvs k r. kvs \<in> set rest \<Longrightarrow> k \<in> fst ` set kvs \<Longrightarrow>
              parse_string (json_string pf k @ r) = Some (k, r)"
        using Cons.prems(1) by (meson list.set_intros(2))
      show "\<And>kvs s r. kvs \<in> set rest \<Longrightarrow> StrCell s \<in> snd ` set kvs \<Longrightarrow>
              parse_string (json_string pf s @ r) = Some (s, r)"
        using Cons.prems(2) by (meson list.set_intros(2))
      show "\<And>kvs. kvs \<in> set rest \<Longrightarrow> kvs \<noteq> []"
        using Cons.prems(3) by simp
      show "rest \<noteq> []" using Cons by simp
      show "length rest \<le> m" using Cons.prems(5) n by simp
    qed
    have "join '','' (map (json_object pf) (kvs # rest)) @ CHR '']'' # r
            = json_object pf kvs @ CHR '','' # ?x"
      by (simp add: Cons)
    then show ?thesis
      using obj [of "CHR '','' # ?x"] ih by (simp add: n)
  qed
qed


lemma str_cell_of_record:
  assumes "StrCell t \<in> set (record_cells pf ps p)"
  shows "title p = Some t"
  using assms
  by (auto simp: record_cells_def title_cell_def reviews_cell_def split: option.splits if_splits)

lemma decoded_members:
  "map (\<lambda>kv. (fst kv, json_value pf (snd kv))) (zip field_names (record_cells pf ps p))
     = decoded_record pf ps p"
  by (simp add: decoded_record_def zip_map2 case_prod_beta)

lemma join_json_objects_starts:
  assumes "objs \<noteq> []"
  shows "\<exists>cs. join '','' (map (json_object pf) objs) @ r = CHR ''{'' # cs"
proof -
  obtain kvs rest where objs: "objs = kvs # rest" using assms by (cases objs) auto
  show ?thesis
    by (cases rest) (simp_all add: objs json_object_def)
qed

lemma json_loads_to_json:
  assumes keys: "\<And>k r. k \<in> set field_names \<Longrightarrow>
                   parse_string (json_string pf k @ r) = Some (k, r)"
    and titles: "\<And>p t r. p \<in> set ps \<Longrightarrow> title p = Some t \<Longrightarrow>
                   parse_string (json_string pf t @ r) = Some (t, r)"
    and fl: "\<And>d. json_float pf d = ''null'' \<or> json_number (json_float pf d)"
  shows "json_loads (to_json pf (dataframe pf ps)) = Some (map (decoded_record pf ps) ps)"
proof (cases "ps = []")
  case True
  then show ?thesis
    by (simp add: to_json_empty json_loads_def)
next
  case False
  let ?objs = "map (\<lambda>p. zip field_names (record_cells pf ps p)) ps"
  let ?body = "join '','' (map (json_object pf) ?objs) @ '']''"
  have doc: "to_json pf (dataframe pf ps) = CHR ''['' # ?body"
    by (simp add: to_json_def to_records_dataframe)
  have ne: "?objs \<noteq> []" using False by simp
  have "length (map (json_object pf) ?objs)
          \<le> length (join '','' (map (json_object pf) ?objs))"
    by (rule length_join) (simp add: list_all_iff json_object_not_Nil)
  then have fuel: "length ?objs \<le> length (CHR ''['' # ?body)"
    by simp
  have parsed: "parse_objects (length (CHR ''['' # ?body))
                  (join '','' (map (json_object pf) ?objs) @ CHR '']'' # [])
            = Some (map (map (\<lambda>kv. (fst kv, json_value pf (snd kv)))) ?objs, [])"
  proof (rule parse_objects_join [OF _ _ fl _ ne fuel])
    fix kvs k r
    assume "kvs \<in> set ?objs" and "k \<in> fst ` set kvs"
    then have "k \<in> set field_names"
      by (auto dest: set_zip_leftD)
    then show "parse_string (json_string pf k @ r) = Some (k, r)"
      by (rule keys)
  next
    fix kvs t r
    assume "kvs \<in> set ?objs" and "StrCell t \<in> snd ` set kvs"
    then obtain p where p: "p \<in> set ps" and "StrCell t \<in> set (record_cells pf ps p)"
      by (auto dest: set_zip_rightD)
    then have "title p = Some t"
      using str_cell_of_record by blast
    then show "parse_string (json_string pf t @ r) = Some (t, r)"
      using titles p by blast
  next
    fix kvs
    assume "kvs \<in> set ?objs"
    then show "kvs \<noteq> []"
      by (auto simp: field_names_def record_cells_def)
  qed
  obtain cs where starts: "?body = CHR ''{'' # cs"
    using join_json_objects_starts [OF ne] by blast
  have decoded: "map (map (\<lambda>kv. (fst kv, json_value pf (snd kv)))) ?objs
                   = map (decoded_record pf ps) ps"
    by (simp add: decoded_members comp_def)
  have "json_loads (CHR ''['' # ?body)
          = (case parse_objects (length (CHR ''['' # ?body)) ?body of
               None \<Rightarrow> None
             | Some (objs, rest) \<Rightarrow> if rest = [] then Some objs else None)"
    unfolding json_loads_def using starts by simp
  then show ?thesis
    using parsed decoded by (simp add: doc)
qed

text \<open>
  C6: the file that \<^verbatim>\<open>save_to_json\<close> writes, read back by the decoder. The texts of
  strings and floats are the platform's; they are taken to be JSON: the five field names
  and the titles of the collection are written as strings that read back as themselves,
  and every float is written as a number or as \<^verbatim>\<open>null\<close>. Then, for a collection of any
  length, the file decodes to one object per record, in the order of the collection,
  and every object has exactly the five field names as keys, each with the value of its
  record.
\<close>

theorem json_file_decodes_to_one_object_per_record:
  assumes keys: "\<And>k r. k \<in> set field_names \<Longrightarrow>
                   parse_string (json_string pf k @ r) = Some (k, r)"
    and titles: "\<And>p t r. p \<in> set (collection s) \<Longrightarrow> title p = Some t \<Longrightarrow>
                   parse_string (json_string pf t @ r) = Some (t, r)"
    and floats: "\<And>d. json_float pf d = ''null'' \<or> json_number (json_float pf d)"
  shows "files (save_to_json pf filename s) (filename @ ''.json'')
           = Some (to_json pf (dataframe pf (collection s)))
       \<and> json_loads (to_json pf (dataframe pf (collection s)))
           = Some (map (decoded_record pf (collection s)) (collection s))
       \<and> length (map (decoded_record pf (collection s)) (collection s)) = length (collection s)
       \<and> list_all (\<lambda>obj. map fst obj = field_names)
            (map (decoded_record pf (collection s)) (collection s))"
proof -
  have written: "files (save_to_json pf filename s) (filename @ ''.json'')
           = Some (to_json pf (dataframe pf (collection s)))"
    by (simp add: save_to_json_def)
  have loads: "json_loads (to_json pf (dataframe pf (collection s)))
           = Some (map (decoded_record pf (collection s)) (collection s))"
    by (rule json_loads_to_json [OF keys titles floats])
  have names: "\<And>p. map fst (decoded_record pf (collection s) p) = field_names"
    by (simp add: decoded_record_def field_names_def record_cells_def)
  show ?thesis
    using written loads by (simp add: list_all_iff names)
qed

theorem json_file_decodes_to_one_object_per_record_witness:
  "parse_string (json_string table_platform ''title'' @ '':'') = Some (''title'', '':'')
   \<and> collection ((initial recording_browser)\<lparr>heap := [conductor_record, new_GProduct],
                                                product_list := [0, 1]\<rparr>)
     = [conductor_record, new_GProduct]
   \<and> json_loads
        (to_json table_platform (dataframe table_platform [conductor_record, new_GProduct]))
     = Some [[(''title'', JString ''Conductor''), (''reviews'', JNumber ''234.0''),
              (''seo_ease_use_average'', JNumber ''8.5''),
              (''seo_quality_support_average'', JNumber ''9.1''),
              (''seo_ease_setup_average'', JNumber ''9.1'')],
             [(''title'', JNull), (''reviews'', JNull),
              (''seo_ease_use_average'', JNumber ''0.0''),
              (''seo_quality_support_average'', JNumber ''0.0''),
              (''seo_ease_setup_average'', JNumber ''0.0'')]]
   \<and> files (save_to_json table_platform ''g2_data''
               ((initial recording_browser)\<lparr>heap := [conductor_record, new_GProduct],
                                              product_list := [0, 1]\<rparr>)) ''g2_data.json''
     = Some (to_json table_platform (dataframe table_platform [conductor_record, new_GProduct]))"
proof -
  let ?s = "(initial recording_browser)\<lparr>heap := [conductor_record, new_GProduct],
                                          product_list := [0, 1]\<rparr>"
  let ?ps = "[conductor_record, new_GProduct]"
  have col: "collection ?s = ?ps"
    by (simp add: collection_def)
  have keys: "\<And>k r. k \<in> set field_names \<Longrightarrow>
                parse_string (json_string table_platform k @ r) = Some (k, r)"
    by (auto simp: field_names_def table_platform_def parse_string_def decoded_def)
  have titles: "\<And>p t r. p \<in> set (collection ?s) \<Longrightarrow> title p = Some t \<Longrightarrow>
                  parse_string (json_string table_platform t @ r) = Some (t, r)"
    unfolding col
    by (auto simp: conductor_record_def new_GProduct_def table_platform_def parse_string_def
        decoded_def)
  have floats: "\<And>d. json_float table_platform d = ''null''
                    \<or> json_number (json_float table_platform d)"
    by (simp add: table_platform_def table_float_def json_number_def strip_minus_def
        json_int_def digits1_def is_digit_def json_fraction_def json_exponent_def)
  have "files (save_to_json table_platform ''g2_data'' ?s) (''g2_data'' @ ''.json'')
           = Some (to_json table_platform (dataframe table_platform (collection ?s)))
       \<and> json_loads (to_json table_platform (dataframe table_platform (collection ?s)))
           = Some (map (decoded_record table_platform (collection ?s)) (collection ?s))
       \<and> length (map (decoded_record table_platform (collection ?s)) (collection ?s))
           = length (collection ?s)
       \<and> list_all (\<lambda>obj. map fst obj = field_names)
            (map (decoded_record table_platform (collection ?s)) (collection ?s))"
  proof (rule json_file_decodes_to_one_object_per_record)
    show "\<And>k r. k \<in> set field_names \<Longrightarrow>
            parse_string (json_string table_platform k @ r) = Some (k, r)"
      by (rule keys)
    show "\<And>p t r. p \<in> set (collection ?s) \<Longrightarrow> title p = Some t \<Longrightarrow>
            parse_string (json_string table_platform t @ r) = Some (t, r)"
      by (rule titles)
    show "\<And>d. json_float table_platform d = ''null''
              \<or> json_number (json_float table_platform d)"
      by (rule floats)
  qed
  note inst = this [unfolded col]
  have objects: "map (decoded_record table_platform ?ps) ?ps
     = [[(''title'', JString ''Conductor''), (''reviews'', JNumber ''234.0''),
              (''seo_ease_use_average'', JNumber ''8.5''),
              (''seo_quality_support_average'', JNumber ''9.1''),
              (''seo_ease_setup_average'', JNumber ''9.1'')],
             [(''title'', JNull), (''reviews'', JNull),
              (''seo_ease_use_average'', JNumber ''0.0''),
              (''seo_quality_support_average'', JNumber ''0.0''),
              (''seo_ease_setup_average'', JNumber ''0.0'')]]"
    by code_simp
  have loads: "json_loads (to_json table_platform (dataframe table_platform ?ps))
     = Some (map (decoded_record table_platform ?ps) ?ps)"
    using inst by blast
  have written: "files (save_to_json table_platform ''g2_data'' ?s) ''g2_data.json''
     = Some (to_json table_platform (dataframe table_platform ?ps))"
    using inst by simp
  have key: "parse_string (json_string table_platform ''title'' @ '':'') = Some (''title'', '':'')"
    by (rule keys) (simp add: field_names_def)
  show ?thesis
    using key col written loads unfolding objects by simp
qed

section \<open>Exporting twice\<close>

text \<open>
  C7: an export changes the file it writes and nothing else. Writing the CSV file a
  second time, or both files a second time, leaves the state as it was after the first
  time, so the files hold the same text; the text written is computed from the records
  of the collection at the time of the call, and from nothing else in the state: after
  one more object is appended, the next export holds its line as well.
\<close>

theorem export_is_repeatable:
  "save_to_csv pf filename (save_to_csv pf filename s) = save_to_csv pf filename s
   \<and> save_to_json pf filename (save_to_csv pf filename
        (save_to_json pf filename (save_to_csv pf filename s)))
       = save_to_json pf filename (save_to_csv pf filename s)
   \<and> files (save_to_csv pf filename s) (filename @ ''.csv'')
       = Some (to_csv pf False (dataframe pf (collection s)))
   \<and> files (save_to_json pf filename s) (filename @ ''.json'')
       = Some (to_json pf (dataframe pf (collection s)))
   \<and> collection (save_to_csv pf filename s) = collection s
   \<and> collection (save_to_json pf filename s) = collection s
   \<and> files (save_to_csv pf filename
               ((save_to_csv pf filename s)\<lparr>product_list := product_list s @ [r]\<rparr>))
         (filename @ ''.csv'')
       = Some (to_csv pf False (dataframe pf (collection s @ [heap s ! r])))"
  by (simp add: save_to_csv_def save_to_json_def collection_def fun_upd_twist)

end
